theory Spec2Isabelle
  imports Main
begin

text \<open>
  The credential store (auth/keychain.py), the biometric gate (auth/touchid.py) and the
  session manager (core/icloud_client.py) of hidemyemail-cli, as functions on an
  explicit state: each method takes its object and the world outside the process and
  returns its result together with both as it leaves them.
\<close>

section \<open>Python strings and integers as the sources use them\<close>

text \<open>
  Python's \<open>str\<close> is modelled as \<open>string\<close>; a character stands for a code point
  below 256. \<open>str(n)\<close> (used by every f-string that prints a status code) is
  \<open>str_int\<close>: decimal digits, most significant first, with a leading minus sign for
  a negative number.
\<close>

definition digit_char :: "nat \<Rightarrow> char" where
  "digit_char d = ''0123456789'' ! d"

function str_nat :: "nat \<Rightarrow> string" where
  "str_nat n = (if n < 10 then [digit_char n] else str_nat (n div 10) @ [digit_char (n mod 10)])"
  by pat_completeness auto
termination
  by (relation "measure id") auto

declare str_nat.simps [simp del]

definition str_int :: "int \<Rightarrow> string" where
  "str_int i = (if i < 0 then CHR ''-'' # str_nat (nat (- i)) else str_nat (nat i))"

text \<open>Reading a decimal rendering back; used only to state that a message carries its code.\<close>

definition digit_val :: "char \<Rightarrow> nat" where
  "digit_val c = of_char c - 48"

definition nat_of_str :: "string \<Rightarrow> nat" where
  "nat_of_str s = foldl (\<lambda>acc c. 10 * acc + digit_val c) 0 s"

definition int_of_str :: "string \<Rightarrow> int" where
  "int_of_str s =
     (case s of
        [] \<Rightarrow> 0
      | c # cs \<Rightarrow> if c = CHR ''-'' then - int (nat_of_str cs) else int (nat_of_str (c # cs)))"

section \<open>auth/keychain.py: the status-code table\<close>

definition SERVICE_NAME :: string where
  "SERVICE_NAME = ''com.hidemyemail.cli''"

text \<open>The dict literal \<open>SEC_ERROR_MESSAGES\<close>, in the order of the source.\<close>

definition SEC_ERROR_MESSAGES :: "(int \<times> string) list" where
  "SEC_ERROR_MESSAGES =
    [(0, ''Success''),
     (- 4, ''Function or operation not implemented''),
     (- 25291, ''No keychain is available''),
     (- 25292, ''The specified keychain is not a valid keychain file''),
     (- 25293, ''The specified keychain could not be opened''),
     (- 25294, ''A duplicate keychain item already exists''),
     (- 25295, ''The specified item could not be found in the keychain''),
     (- 25296, ''Keychain interaction is not allowed by the caller''),
     (- 25297, ''The keychain interaction was blocked by the user''),
     (- 25298, ''The caller does not have access to the keychain item''),
     (- 25299, ''The specified data is invalid for keychain''),
     (- 25300, ''No default keychain exists''),
     (- 25308, ''Interaction with the Security Server is not allowed''),
     (- 26275, ''An authorization/authentication was canceled''),
     (- 26276, ''Authorization/Authentication failed''),
     (- 34018, ''A required entitlement is missing (code signing issue)''),
     (- 50, ''One or more parameters passed were not valid''),
     (- 67030, ''Device passcode is not set (required for biometric protection)'')]"

text \<open>
  \<open>get_security_error_message(status)\<close>: the table's message followed by
  \<open>(error <status>)\<close> when the status is a key of the table, the fixed text
  \<open>Unknown security error (error <status>)\<close> otherwise.
\<close>

definition get_security_error_message :: "int \<Rightarrow> string" where
  "get_security_error_message status =
     (case map_of SEC_ERROR_MESSAGES status of
        Some message \<Rightarrow> message @ '' (error '' @ str_int status @ '')''
      | None \<Rightarrow> ''Unknown security error (error '' @ str_int status @ '')'')"

text \<open>The status code read back from the tail \<open>(error N)\<close> of a message.\<close>

definition code_of_message :: "string \<Rightarrow> int" where
  "code_of_message m =
     int_of_str (rev (takeWhile (\<lambda>c. c \<noteq> CHR '' '') (tl (rev m))))"

section \<open>Python exceptions and string operations\<close>

text \<open>
  The exception classes the sources raise or catch; \<open>OtherException name\<close> is any
  other class, raised by a library or the platform and named by \<open>name\<close>. Every class
  here derives from \<open>Exception\<close>; \<open>Exn c m\<close> is an instance of class \<open>c\<close> whose
  \<open>str()\<close> is \<open>m\<close>.
  A function that can raise returns \<open>py_exn + 'a\<close>, \<open>Inl\<close> the raised exception.
\<close>

datatype exn_class =
    AuthenticationError
  | TwoFactorRequiredError
  | CredentialsNotFoundError
  | PyiCloudFailedLoginException
  | FileNotFoundError
  | ValueError
  | OtherException string

datatype py_exn = Exn exn_class string

fun exn_class_of :: "py_exn \<Rightarrow> exn_class" where
  "exn_class_of (Exn c m) = c"

fun exn_str :: "py_exn \<Rightarrow> string" where
  "exn_str (Exn c m) = m"

text \<open>\<open>str.isspace\<close> on code points below 256, and \<open>str.strip()\<close>.\<close>

definition py_isspace :: "char \<Rightarrow> bool" where
  "py_isspace c \<longleftrightarrow>
     c = CHR 0x09 \<or> c = CHR 0x0A \<or> c = CHR 0x0B \<or> c = CHR 0x0C \<or> c = CHR 0x0D \<or>
     c = CHR 0x1C \<or> c = CHR 0x1D \<or> c = CHR 0x1E \<or> c = CHR 0x1F \<or> c = CHR 0x20 \<or>
     c = CHR 0x85 \<or> c = CHR 0xA0"

definition py_strip :: "string \<Rightarrow> string" where
  "py_strip s = rev (dropWhile py_isspace (rev (dropWhile py_isspace s)))"

text \<open>\<open>sub in s\<close> for strings: \<open>sub\<close> occurs in \<open>s\<close> as a contiguous piece.\<close>

fun py_in :: "string \<Rightarrow> string \<Rightarrow> bool" where
  "py_in sub [] = (sub = [])"
| "py_in sub (c # cs) = (take (length sub) (c # cs) = sub \<or> py_in sub cs)"

text \<open>An \<open>Optional[str]\<close> inside an f-string: \<open>None\<close> prints as the word None.\<close>

fun str_opt :: "string option \<Rightarrow> string" where
  "str_opt None = ''None''"
| "str_opt (Some s) = s"

section \<open>The platform the code runs on\<close>

text \<open>
  The sources reach outside the process in four places: the \<open>/usr/bin/security\<close>
  tool through \<open>subprocess.run\<close>, the LocalAuthentication framework, the session
  directory \<open>~/.hidemyemail/session\<close>, and the remote login capability
  (\<open>PyiCloudService\<close>). The record \<open>world\<close> holds what those places answer, and a
  trace of every call that leaves the module and of every write of a session artifact,
  in the order made. Calls are assumed to return: a platform that never answers is
  outside this model. What the platform answers does not change while one method runs.
\<close>

record CompletedProcess =
  returncode :: int
  stdout :: string
  stderr :: string

datatype security_cmd =
    Delete_generic_password string string
  | Add_generic_password string string string
  | Find_generic_password string string bool

text \<open>The argument vectors, as the source writes them.\<close>

fun argv :: "security_cmd \<Rightarrow> string list" where
  "argv (Delete_generic_password service account) =
     [''/usr/bin/security'', ''delete-generic-password'', ''-s'', service, ''-a'', account]"
| "argv (Add_generic_password service account password) =
     [''/usr/bin/security'', ''add-generic-password'', ''-s'', service, ''-a'', account,
      ''-w'', password, ''-U'']"
| "argv (Find_generic_password service account show_password) =
     [''/usr/bin/security'', ''find-generic-password'', ''-s'', service, ''-a'', account]
       @ (if show_password then [''-w''] else [])"

datatype tool_condition =
    Tool_ok
  | Tool_missing
  | Tool_raises string
  | Tool_fails nat string

datatype la_platform =
    LA_absent
  | LA_broken string string
  | LA_present bool "string option"

datatype node = File | Dir

datatype login_result =
    Login_rejected string
  | Login_error string string
  | Login_ok bool

datatype event =
    Call_subprocess_run "string list"
  | Call_canEvaluatePolicy
  | Call_touchid_authenticate string
  | Call_evaluatePolicy string
  | Call_mkdir_cookie_dir
  | Call_PyiCloudService string string
  | Call_twofa_callback
  | Call_validate_2fa_code string string
  | Call_trust_session string
  | Write_session_artifact string

text \<open>
  \<^item> \<open>keychain_items\<close>: the generic-password items, keyed by (service, account);
  \<^item> \<open>security_tool\<close>: the tool runs, is missing (\<open>FileNotFoundError\<close>), makes
    \<open>subprocess.run\<close> raise another exception, or exits with a non-zero status
    \<open>n + 1\<close> and the given stderr whatever it is asked;
  \<^item> \<open>la_framework\<close>: LocalAuthentication cannot be imported, raises an exception
    of its own (class name, message) when asked \<open>canEvaluatePolicy\<close>, or answers it
    with a flag and an optional error description;
  \<^item> \<open>la_reply\<close>: what the reply callback of \<open>evaluatePolicy\<close> receives:
    success, and the description of the error if there is one;
  \<^item> \<open>session_dir\<close>: the entries of the directory \<open>COOKIE_DIR\<close>, by name; the path
    \<open>COOKIE_DIR / username\<close> is the entry named \<open>username\<close> (an account is taken to
    be a plain file name);
  \<^item> \<open>remote_login\<close>, \<open>remote_code_valid\<close>, \<open>remote_trusted_after_code\<close>: the
    answers of the remote login capability (see below);
  \<^item> \<open>trace\<close>: the calls and artifact writes made so far.
\<close>

record world =
  keychain_items :: "string \<times> string \<rightharpoonup> string"
  security_tool :: tool_condition
  la_framework :: la_platform
  la_reply :: "bool \<times> string option"
  session_dir :: "string \<rightharpoonup> node"
  remote_login :: "string \<Rightarrow> string \<Rightarrow> bool \<Rightarrow> login_result"
  remote_code_valid :: "string \<Rightarrow> string \<Rightarrow> bool"
  remote_trusted_after_code :: "string \<Rightarrow> bool"
  trace :: "event list"

definition emit :: "event \<Rightarrow> world \<Rightarrow> world" where
  "emit e w = w\<lparr>trace := trace w @ [e]\<rparr>"

text \<open>The calls a run added to the trace, and the projections the claims speak of.\<close>

definition new_events :: "world \<Rightarrow> world \<Rightarrow> event list" where
  "new_events w w' = drop (length (trace w)) (trace w')"

fun is_subprocess :: "event \<Rightarrow> bool" where
  "is_subprocess (Call_subprocess_run a) = True"
| "is_subprocess e = False"

fun is_verify :: "event \<Rightarrow> bool" where
  "is_verify (Call_touchid_authenticate r) = True"
| "is_verify (Call_evaluatePolicy r) = True"
| "is_verify e = False"

fun is_remote :: "event \<Rightarrow> bool" where
  "is_remote (Call_PyiCloudService a p) = True"
| "is_remote (Call_validate_2fa_code a c) = True"
| "is_remote (Call_trust_session a) = True"
| "is_remote e = False"

fun is_write :: "event \<Rightarrow> bool" where
  "is_write (Write_session_artifact a) = True"
| "is_write e = False"

subsection \<open>The security tool\<close>

definition not_found_stderr :: string where
  "not_found_stderr =
     ''security: SecKeychainSearchCopyNext: The specified item could not be found in the keychain.''
       @ [CHR 0x0A]"

text \<open>
  What the tool does when it runs: \<open>delete-generic-password\<close> removes the item or
  fails with status 44 and the not-found message; \<open>add-generic-password -U\<close> adds the
  item or replaces its password; \<open>find-generic-password\<close> fails the same way when
  there is no item, and with \<open>-w\<close> prints the password and a newline.
\<close>

fun security :: "security_cmd \<Rightarrow> (string \<times> string \<rightharpoonup> string) \<Rightarrow>
    CompletedProcess \<times> (string \<times> string \<rightharpoonup> string)" where
  "security (Delete_generic_password service account) items =
     (case items (service, account) of
        None \<Rightarrow> (\<lparr>returncode = 44, stdout = [], stderr = not_found_stderr\<rparr>, items)
      | Some p \<Rightarrow> (\<lparr>returncode = 0, stdout = [], stderr = []\<rparr>,
                   items((service, account) := None)))"
| "security (Add_generic_password service account password) items =
     (\<lparr>returncode = 0, stdout = [], stderr = []\<rparr>, items((service, account) \<mapsto> password))"
| "security (Find_generic_password service account show_password) items =
     (case items (service, account) of
        None \<Rightarrow> (\<lparr>returncode = 44, stdout = [], stderr = not_found_stderr\<rparr>, items)
      | Some p \<Rightarrow>
          (\<lparr>returncode = 0, stdout = (if show_password then p @ [CHR 0x0A] else []),
            stderr = []\<rparr>, items))"

text \<open>
  \<open>subprocess.run(argv, capture_output=True)\<close>. CPython refuses an argument with an
  embedded NUL (\<open>ValueError\<close>) before it starts the process.
\<close>

definition subprocess_run :: "world \<Rightarrow> security_cmd \<Rightarrow> (py_exn + CompletedProcess) \<times> world" where
  "subprocess_run w cmd =
     (let w1 = emit (Call_subprocess_run (argv cmd)) w in
      if \<exists>arg \<in> set (argv cmd). CHR 0x00 \<in> set arg
      then (Inl (Exn ValueError ''embedded null byte''), w1)
      else
        (case security_tool w of
           Tool_missing \<Rightarrow> (Inl (Exn FileNotFoundError ''/usr/bin/security''), w1)
         | Tool_raises m \<Rightarrow> (Inl (Exn (OtherException ''OSError'') m), w1)
         | Tool_fails n err \<Rightarrow>
             (Inr \<lparr>returncode = int (Suc n), stdout = [], stderr = err\<rparr>, w1)
         | Tool_ok \<Rightarrow>
             (let (r, items) = security cmd (keychain_items w)
              in (Inr r, w1\<lparr>keychain_items := items\<rparr>))))"

section \<open>auth/touchid.py\<close>

text \<open>
  \<open>is_available()\<close>: false when the framework cannot be imported or the probe
  raises, the answer of \<open>canEvaluatePolicy\<close> otherwise. Nothing is cached.
\<close>

definition touchid_is_available :: "world \<Rightarrow> bool \<times> world" where
  "touchid_is_available w =
     (case la_framework w of
        LA_absent \<Rightarrow> (False, w)
      | LA_broken cls m \<Rightarrow> (False, emit Call_canEvaluatePolicy w)
      | LA_present can_evaluate err \<Rightarrow> (can_evaluate, emit Call_canEvaluatePolicy w))"

text \<open>
  \<open>authenticate(reason)\<close> of touchid.py: the pair (success, error message). Only
  the import is guarded; an exception of the framework itself propagates.
\<close>

definition touchid_authenticate ::
    "world \<Rightarrow> string \<Rightarrow> (py_exn + bool \<times> string option) \<times> world" where
  "touchid_authenticate w reason =
     (let w0 = emit (Call_touchid_authenticate reason) w in
      case la_framework w of
        LA_absent \<Rightarrow> (Inr (False, Some ''LocalAuthentication framework not available''), w0)
      | LA_broken cls m \<Rightarrow> (Inl (Exn (OtherException cls) m), emit Call_canEvaluatePolicy w0)
      | LA_present can_evaluate err \<Rightarrow>
          (let w1 = emit Call_canEvaluatePolicy w0 in
           if \<not> can_evaluate
           then (Inr (False, Some (case err of Some d \<Rightarrow> d | None \<Rightarrow> ''Touch ID not available'')), w1)
           else (Inr (la_reply w), emit (Call_evaluatePolicy reason) w1)))"

section \<open>auth/keychain.py: KeychainManager\<close>

text \<open>
  The fields \<open>_security_available\<close> and \<open>_last_error\<close> of the class (a name cannot
  start with an underscore here, so they carry the prefix \<open>priv\<close>). A method takes the
  object and the world and returns its result with both as it leaves them.
\<close>

record KeychainManager =
  priv_security_available :: bool
  priv_last_error :: "string option"

definition last_error :: "KeychainManager \<Rightarrow> string option" where
  "last_error self = priv_last_error self"

definition store_password_fallback ::
    "KeychainManager \<Rightarrow> world \<Rightarrow> string \<Rightarrow> string \<Rightarrow> bool \<times> KeychainManager \<times> world" where
  "store_password_fallback self w account password =
     (case subprocess_run w (Delete_generic_password SERVICE_NAME account) of
        (Inl e, w1) \<Rightarrow>
          (False,
           self\<lparr>priv_last_error := Some (if exn_class_of e = FileNotFoundError
              then ''/usr/bin/security command not found''
              else ''Unexpected error: '' @ exn_str e)\<rparr>, w1)
      | (Inr deleted, w1) \<Rightarrow>
          (case subprocess_run w1 (Add_generic_password SERVICE_NAME account password) of
             (Inl e, w2) \<Rightarrow>
               (False,
                self\<lparr>priv_last_error := Some (if exn_class_of e = FileNotFoundError
                   then ''/usr/bin/security command not found''
                   else ''Unexpected error: '' @ exn_str e)\<rparr>, w2)
           | (Inr result, w2) \<Rightarrow>
               if returncode result \<noteq> 0
               then (False,
                     self\<lparr>priv_last_error := Some
                        (if py_strip (stderr result) \<noteq> []
                         then ''security command failed: '' @ py_strip (stderr result)
                         else ''security command failed with code '' @ str_int (returncode result))\<rparr>,
                     w2)
               else (True, self, w2)))"

definition store_password ::
    "KeychainManager \<Rightarrow> world \<Rightarrow> string \<Rightarrow> string \<Rightarrow> bool \<Rightarrow> bool \<times> KeychainManager \<times> world" where
  "store_password self w account password require_biometry =
     store_password_fallback (self\<lparr>priv_last_error := None\<rparr>) w account password"

definition get_password_fallback ::
    "KeychainManager \<Rightarrow> world \<Rightarrow> string \<Rightarrow> string option \<times> KeychainManager \<times> world" where
  "get_password_fallback self w account =
     (case subprocess_run w (Find_generic_password SERVICE_NAME account True) of
        (Inl e, w1) \<Rightarrow>
          (None,
           self\<lparr>priv_last_error := Some (if exn_class_of e = FileNotFoundError
              then ''/usr/bin/security command not found''
              else ''Unexpected error: '' @ exn_str e)\<rparr>, w1)
      | (Inr result, w1) \<Rightarrow>
          if returncode result = 0 then (Some (py_strip (stdout result)), self, w1)
          else (None,
                self\<lparr>priv_last_error := Some
                   (if py_in ''could not be found'' (stderr result)
                    then ''No credentials found for this account''
                    else if py_strip (stderr result) \<noteq> [] then py_strip (stderr result)
                    else ''Failed with code '' @ str_int (returncode result))\<rparr>,
                w1))"

definition get_password ::
    "KeychainManager \<Rightarrow> world \<Rightarrow> string \<Rightarrow> string \<Rightarrow>
     (py_exn + string option) \<times> KeychainManager \<times> world" where
  "get_password self w account prompt =
     (let self1 = self\<lparr>priv_last_error := None\<rparr>;
          (available, w1) = touchid_is_available w
      in if available
         then
           (case touchid_authenticate w1 prompt of
              (Inl e, w2) \<Rightarrow> (Inl e, self1, w2)
            | (Inr (success, error), w2) \<Rightarrow>
                if \<not> success
                then (Inr None,
                      self1\<lparr>priv_last_error :=
                         Some (''Touch ID authentication failed: '' @ str_opt error)\<rparr>, w2)
                else (let (r, self2, w3) = get_password_fallback self1 w2 account
                      in (Inr r, self2, w3)))
         else (let (r, self2, w3) = get_password_fallback self1 w1 account
               in (Inr r, self2, w3)))"

definition delete_password_fallback ::
    "KeychainManager \<Rightarrow> world \<Rightarrow> string \<Rightarrow> bool \<times> KeychainManager \<times> world" where
  "delete_password_fallback self w account =
     (case subprocess_run w (Delete_generic_password SERVICE_NAME account) of
        (Inl e, w1) \<Rightarrow> (False, self\<lparr>priv_last_error := Some (''Unexpected error: '' @ exn_str e)\<rparr>, w1)
      | (Inr result, w1) \<Rightarrow>
          (returncode result = 0 \<or> py_in ''could not be found'' (stderr result), self, w1))"

definition delete_password ::
    "KeychainManager \<Rightarrow> world \<Rightarrow> string \<Rightarrow> bool \<times> KeychainManager \<times> world" where
  "delete_password self w account = delete_password_fallback self w account"

definition has_password_fallback :: "KeychainManager \<Rightarrow> world \<Rightarrow> string \<Rightarrow> bool \<times> world" where
  "has_password_fallback self w account =
     (case subprocess_run w (Find_generic_password SERVICE_NAME account False) of
        (Inl e, w1) \<Rightarrow> (False, w1)
      | (Inr result, w1) \<Rightarrow> (returncode result = 0, w1))"

definition has_password :: "KeychainManager \<Rightarrow> world \<Rightarrow> string \<Rightarrow> bool \<times> world" where
  "has_password self w account = has_password_fallback self w account"

section \<open>The remote login capability\<close>

text \<open>
  The client object the sources hold in \<open>_api\<close>: the account it was built for and
  the two properties \<open>requires_2fa\<close> and \<open>is_trusted_session\<close> they read.
\<close>

record PyiCloudService =
  apple_id :: string
  requires_2fa :: bool
  is_trusted_session :: bool

definition write_artifact :: "string \<Rightarrow> world \<Rightarrow> world" where
  "write_artifact account w =
     emit (Write_session_artifact account) (w\<lparr>session_dir := (session_dir w)(account \<mapsto> File)\<rparr>)"

text \<open>
  Modelled from the spec: the class \<open>PyiCloudService\<close> of the pyicloud package, which
  the sources import and which is not among them. Its constructor is the spec's
  \<open>login(account, secret)\<close>: it fails with the login exception on bad credentials
  (or with a transport error), and otherwise reports whether a two-factor challenge is
  required. The answer may depend on whether a session artifact for the account is
  present. The session artifact is "written by the remote login capability after
  successful authentication or successful two-factor trust": here, by a login that
  needs no second factor.
\<close>

definition PyiCloudService_init ::
    "world \<Rightarrow> string \<Rightarrow> string \<Rightarrow> (py_exn + PyiCloudService) \<times> world" where
  "PyiCloudService_init w account password =
     (let w1 = emit (Call_PyiCloudService account password) w in
      case remote_login w account password (session_dir w account \<noteq> None) of
        Login_rejected detail \<Rightarrow> (Inl (Exn PyiCloudFailedLoginException detail), w1)
      | Login_error cls m \<Rightarrow> (Inl (Exn (OtherException cls) m), w1)
      | Login_ok two_factor \<Rightarrow>
          (Inr \<lparr>apple_id = account, requires_2fa = two_factor,
                is_trusted_session = \<not> two_factor\<rparr>,
           if two_factor then w1 else write_artifact account w1))"

text \<open>
  Modelled from the spec: \<open>validateTwoFactorCode(code) -> bool\<close>. A rejected code
  changes nothing. An accepted code may leave the session already trusted, and then
  the artifact is written; otherwise it is written by \<open>trustSession()\<close>.
\<close>

definition validate_2fa_code ::
    "PyiCloudService \<Rightarrow> world \<Rightarrow> string \<Rightarrow> bool \<times> PyiCloudService \<times> world" where
  "validate_2fa_code client w code =
     (let w1 = emit (Call_validate_2fa_code (apple_id client) code) w in
      if remote_code_valid w (apple_id client) code
      then (if remote_trusted_after_code w (apple_id client)
            then (True, client\<lparr>is_trusted_session := True\<rparr>,
                  write_artifact (apple_id client) w1)
            else (True, client, w1))
      else (False, client, w1))"

text \<open>Modelled from the spec: \<open>trustSession() -> ()\<close>, an idempotent call.\<close>

definition trust_session :: "PyiCloudService \<Rightarrow> world \<Rightarrow> PyiCloudService \<times> world" where
  "trust_session client w =
     (client\<lparr>is_trusted_session := True\<rparr>,
      write_artifact (apple_id client) (emit (Call_trust_session (apple_id client)) w))"

section \<open>core/icloud_client.py: ICloudClient\<close>

record ICloudClient =
  keychain :: KeychainManager
  priv_api :: "PyiCloudService option"
  priv_username :: "string option"

definition ICloudClient_init :: "bool \<Rightarrow> ICloudClient" where
  "ICloudClient_init security_importable =
     \<lparr>keychain = \<lparr>priv_security_available = security_importable, priv_last_error = None\<rparr>,
      priv_api = None, priv_username = None\<rparr>"

definition not_authenticated_message :: string where
  "not_authenticated_message =
     ''Not authenticated. Run '' @ [CHR 0x27] @ ''hide-my-email setup'' @ [CHR 0x27] @ '' first.''"

definition no_credentials_message :: string where
  "no_credentials_message =
     ''No stored credentials found. Run '' @ [CHR 0x27] @ ''hide-my-email setup'' @ [CHR 0x27]
       @ '' first.''"

text \<open>The property \<open>api\<close>.\<close>

definition api :: "ICloudClient \<Rightarrow> py_exn + PyiCloudService" where
  "api self =
     (case priv_api self of
        None \<Rightarrow> Inl (Exn AuthenticationError not_authenticated_message)
      | Some client \<Rightarrow> Inr client)"

text \<open>
  \<open>authenticate(username, password=None, twofa_callback=None)\<close>. The creation of
  the cookie directory (\<open>mkdir(parents=True, exist_ok=True)\<close>) is taken to succeed; it
  adds no entry to the directory. The callback is a function of no argument that
  returns the code.
\<close>

definition authenticate ::
    "ICloudClient \<Rightarrow> world \<Rightarrow> string \<Rightarrow> string option \<Rightarrow> (unit \<Rightarrow> string) option \<Rightarrow>
     (py_exn + bool) \<times> ICloudClient \<times> world" where
  "authenticate self w username password twofa_callback =
     (let self1 = self\<lparr>priv_username := Some username\<rparr>;
          (resolved, self2, w1) =
            (case password of
               Some p \<Rightarrow> (Inr (Some p), self1, w)
             | None \<Rightarrow>
                 (let (r, k, w') = get_password (keychain self1) w username
                                     ''Authenticate to access iCloud credentials''
                  in (r, self1\<lparr>keychain := k\<rparr>, w')))
      in case resolved of
           Inl e \<Rightarrow> (Inl e, self2, w1)
         | Inr None \<Rightarrow> (Inl (Exn CredentialsNotFoundError no_credentials_message), self2, w1)
         | Inr (Some pw) \<Rightarrow>
             (case PyiCloudService_init (emit Call_mkdir_cookie_dir w1) username pw of
                (Inl e, w2) \<Rightarrow>
                  if exn_class_of e = PyiCloudFailedLoginException
                  then (Inl (Exn AuthenticationError (''Login failed: '' @ exn_str e)), self2, w2)
                  else (Inl e, self2, w2)
              | (Inr client, w2) \<Rightarrow>
                  (let self3 = self2\<lparr>priv_api := Some client\<rparr> in
                   if requires_2fa client
                   then
                     (case twofa_callback of
                        None \<Rightarrow>
                          (Inl (Exn TwoFactorRequiredError ''2FA required but no callback provided''),
                           self3, w2)
                      | Some callback \<Rightarrow>
                          (let code = callback ();
                               (valid, client1, w3) =
                                  validate_2fa_code client (emit Call_twofa_callback w2) code;
                               self4 = self3\<lparr>priv_api := Some client1\<rparr>
                           in if \<not> valid
                              then (Inl (Exn AuthenticationError ''Invalid 2FA code''), self4, w3)
                              else if \<not> is_trusted_session client1
                              then (let (client2, w4) = trust_session client1 w3
                                    in (Inr True, self4\<lparr>priv_api := Some client2\<rparr>, w4))
                              else (Inr True, self4, w3)))
                   else (Inr True, self3, w2))))"

text \<open>
  \<open>is_session_valid(username)\<close>. \<open>is_session_valid_try\<close> is the body of its
  \<open>try\<close> block: \<open>Inl\<close> when it raises, \<open>Inr (Some b)\<close> when it returns \<open>b\<close>,
  \<open>Inr None\<close> when it runs to its end without returning. The handler
  \<open>except Exception: pass\<close> and the final \<open>return False\<close> follow in
  \<open>is_session_valid\<close>.
\<close>

definition is_session_valid_try ::
    "ICloudClient \<Rightarrow> world \<Rightarrow> string \<Rightarrow> (py_exn + bool option) \<times> ICloudClient \<times> world" where
  "is_session_valid_try self w username =
     (case get_password (keychain self) w username ''Check iCloud session'' of
        (Inl e, k, w1) \<Rightarrow> (Inl e, self\<lparr>keychain := k\<rparr>, w1)
      | (Inr password, k, w1) \<Rightarrow>
          (let self1 = self\<lparr>keychain := k\<rparr> in
           case password of
             None \<Rightarrow> (Inr None, self1, w1)
           | Some pw \<Rightarrow>
               if pw = [] then (Inr None, self1, w1)
               else
                 (case PyiCloudService_init w1 username pw of
                    (Inl e, w2) \<Rightarrow> (Inl e, self1, w2)
                  | (Inr client, w2) \<Rightarrow>
                      (Inr (Some (\<not> requires_2fa client)),
                       self1\<lparr>priv_api := Some client, priv_username := Some username\<rparr>, w2))))"

definition is_session_valid ::
    "ICloudClient \<Rightarrow> world \<Rightarrow> string \<Rightarrow> (py_exn + bool) \<times> ICloudClient \<times> world" where
  "is_session_valid self w username =
     (let (has, w1) = has_password (keychain self) w username in
      if \<not> has then (Inr False, self, w1)
      else if session_dir w1 username = None then (Inr False, self, w1)
      else
        (case is_session_valid_try self w1 username of
           (Inl e, self2, w2) \<Rightarrow> (Inr False, self2, w2)
         | (Inr (Some b), self2, w2) \<Rightarrow> (Inr b, self2, w2)
         | (Inr None, self2, w2) \<Rightarrow> (Inr False, self2, w2)))"

text \<open>\<open>clear_session(username)\<close>: the entry goes, file or directory, and the client is reset.\<close>

definition clear_session :: "ICloudClient \<Rightarrow> world \<Rightarrow> string \<Rightarrow> ICloudClient \<times> world" where
  "clear_session self w username =
     (self\<lparr>priv_api := None, priv_username := None\<rparr>,
      if session_dir w username \<noteq> None
      then w\<lparr>session_dir := (session_dir w)(username := None)\<rparr>
      else w)"

section \<open>Example worlds\<close>

text \<open>
  The scenario of the spec: account \<open>alice@example.com\<close> with secret \<open>p@ss1\<close>, a
  remote capability that asks for a second factor unless a session artifact is present,
  and the code \<open>123456\<close>. \<open>world0\<close> has nothing stored, a working \<open>security\<close> tool
  and no biometric hardware; the other worlds change one thing each.
\<close>

definition alice :: string where
  "alice = ''alice@example.com''"

definition demo_login :: "string \<Rightarrow> string \<Rightarrow> bool \<Rightarrow> login_result" where
  "demo_login account password artifact_present =
     (if password = ''p@ss1'' then Login_ok (\<not> artifact_present)
      else Login_rejected ''Invalid email/password combination.'')"

definition world0 :: world where
  "world0 =
     \<lparr>keychain_items = Map.empty, security_tool = Tool_ok, la_framework = LA_absent,
      la_reply = (True, None), session_dir = Map.empty, remote_login = demo_login,
      remote_code_valid = (\<lambda>account code. code = ''123456''),
      remote_trusted_after_code = (\<lambda>account. False), trace = []\<rparr>"

definition world_stored :: world where
  "world_stored = world0\<lparr>keychain_items := [(SERVICE_NAME, alice) \<mapsto> ''p@ss1'']\<rparr>"

definition world_touchid_denied :: world where
  "world_touchid_denied =
     world_stored\<lparr>la_framework := LA_present True None,
                  la_reply := (False, Some ''Authentication canceled.'')\<rparr>"

text \<open>A stale artifact: the entry is there, and the remote side asks for the second factor all the same.\<close>

definition world_stale :: world where
  "world_stale =
     world_stored\<lparr>session_dir := [alice \<mapsto> File],
                  remote_login := (\<lambda>account password artifact_present. Login_ok True)\<rparr>"

text \<open>A credential and an artifact: the remote side then asks for no second factor.\<close>

definition world_session :: world where
  "world_session = world_stored\<lparr>session_dir := [alice \<mapsto> File]\<rparr>"

definition world_session_touchid :: world where
  "world_session_touchid = world_session\<lparr>la_framework := LA_present True None\<rparr>"

text \<open>An artifact and no credential; and a remote side that cannot be reached.\<close>

definition world_orphan_artifact :: world where
  "world_orphan_artifact = world0\<lparr>session_dir := [alice \<mapsto> File]\<rparr>"

definition world_offline :: world where
  "world_offline =
     world_session\<lparr>remote_login :=
        (\<lambda>account password artifact_present.
           Login_error ''ConnectionError'' ''Network is unreachable'')\<rparr>"

definition manager0 :: KeychainManager where
  "manager0 = \<lparr>priv_security_available = True, priv_last_error = None\<rparr>"

definition client0 :: ICloudClient where
  "client0 = ICloudClient_init True"

section \<open>Decimal renderings\<close>

lemma lt10_cases:
  "(d::nat) < 10 \<Longrightarrow>
     d = 0 \<or> d = 1 \<or> d = 2 \<or> d = 3 \<or> d = 4 \<or> d = 5 \<or> d = 6 \<or> d = 7 \<or> d = 8 \<or> d = 9"
  by arith

lemma digit_val_digit_char: "d < 10 \<Longrightarrow> digit_val (digit_char d) = d"
  by (drule lt10_cases) (auto simp: digit_val_def digit_char_def)

lemma digit_char_not_sep:
  "d < 10 \<Longrightarrow> digit_char d \<noteq> CHR ''-'' \<and> digit_char d \<noteq> CHR '' ''"
  by (drule lt10_cases) (auto simp: digit_char_def)

lemma str_nat_digit: "n < 10 \<Longrightarrow> str_nat n = [digit_char n]"
  by (simp add: str_nat.simps [of n])

lemma str_nat_not_Nil: "str_nat n \<noteq> []"
  by (simp add: str_nat.simps [of n])

lemma nat_of_str_snoc: "nat_of_str (s @ [c]) = 10 * nat_of_str s + digit_val c"
  by (simp add: nat_of_str_def)

lemma nat_of_str_str_nat: "nat_of_str (str_nat n) = n"
proof (induction n rule: str_nat.induct)
  case (1 n)
  show ?case
  proof (cases "n < 10")
    case True
    then show ?thesis
      by (simp add: str_nat_digit nat_of_str_def digit_val_digit_char)
  next
    case False
    with 1 show ?thesis
      by (simp add: str_nat.simps [of n] nat_of_str_snoc digit_val_digit_char)
  qed
qed

lemma str_nat_chars: "c \<in> set (str_nat n) \<Longrightarrow> c \<noteq> CHR ''-'' \<and> c \<noteq> CHR '' ''"
proof (induction n rule: str_nat.induct)
  case (1 n)
  show ?case
  proof (cases "n < 10")
    case True
    with 1(2) show ?thesis
      using digit_char_not_sep [of n] by (simp add: str_nat_digit)
  next
    case False
    have last_digit: "digit_char (n mod 10) \<noteq> CHR ''-'' \<and> digit_char (n mod 10) \<noteq> CHR '' ''"
      by (rule digit_char_not_sep) simp
    from 1(2) False have "c \<in> set (str_nat (n div 10)) \<or> c = digit_char (n mod 10)"
      by (auto simp: str_nat.simps [of n])
    with 1(1) False last_digit show ?thesis by auto
  qed
qed

lemma int_of_str_str_int: "int_of_str (str_int i) = i"
proof (cases "i < 0")
  case True
  then show ?thesis by (simp add: str_int_def int_of_str_def nat_of_str_str_nat)
next
  case False
  obtain c cs where cs: "str_nat (nat i) = c # cs"
    using str_nat_not_Nil [of "nat i"] by (cases "str_nat (nat i)") auto
  then have "c \<in> set (str_nat (nat i))" by simp
  then have "c \<noteq> CHR ''-''" using str_nat_chars by blast
  with False cs show ?thesis
    using nat_of_str_str_nat [of "nat i"] by (simp add: str_int_def int_of_str_def)
qed

lemma str_int_no_space: "CHR '' '' \<notin> set (str_int i)"
  using str_nat_chars by (auto simp: str_int_def)

lemma code_of_message_tail: "code_of_message (pre @ '' (error '' @ str_int n @ '')'') = n"
proof -
  have "takeWhile (\<lambda>c. c \<noteq> CHR '' '') (rev (str_int n) @ CHR '' '' # rest) = rev (str_int n)"
    for rest
    using str_int_no_space [of n] by (auto simp: takeWhile_tail takeWhile_eq_all_conv)
  then show ?thesis
    by (simp add: code_of_message_def int_of_str_str_int)
qed

lemma str_int_7: "str_int 7 = ''7''"
  by (simp add: str_int_def str_nat_digit digit_char_def)

lemma str_int_minus_50: "str_int (- 50) = ''-50''"
  by (simp add: str_int_def str_nat.simps [of 50] str_nat_digit digit_char_def)

section \<open>The status-code messages\<close>

text \<open>
  C8, as amended. For every status code \<open>n\<close>: when \<open>n\<close> is a key of the table,
  \<open>get_security_error_message\<close> returns one string, the table's message followed by
  \<open>(error n)\<close>; for every other \<open>n\<close> it returns \<open>Unknown security error (error n)\<close>.
  In both cases \<open>n\<close> is printed in decimal and can be read back from the message: no
  code is dropped.
\<close>

theorem get_security_error_message_carries_code:
  "(\<forall>message. map_of SEC_ERROR_MESSAGES n = Some message \<longrightarrow>
       get_security_error_message n = message @ '' (error '' @ str_int n @ '')'')
   \<and> (map_of SEC_ERROR_MESSAGES n = None \<longrightarrow>
       get_security_error_message n = ''Unknown security error (error '' @ str_int n @ '')'')
   \<and> code_of_message (get_security_error_message n) = n"
proof -
  have "code_of_message (get_security_error_message n) = n"
  proof (cases "map_of SEC_ERROR_MESSAGES n")
    case None
    then show ?thesis
      using code_of_message_tail [of "''Unknown security error''" n]
      by (simp add: get_security_error_message_def)
  next
    case (Some message)
    then show ?thesis
      using code_of_message_tail [of message n]
      by (simp add: get_security_error_message_def)
  qed
  then show ?thesis
    by (simp add: get_security_error_message_def)
qed

theorem get_security_error_message_carries_code_witness:
  "map_of SEC_ERROR_MESSAGES (- 50) = Some ''One or more parameters passed were not valid''
   \<and> get_security_error_message (- 50) =
       ''One or more parameters passed were not valid (error -50)''
   \<and> code_of_message (get_security_error_message (- 50)) = - 50
   \<and> map_of SEC_ERROR_MESSAGES 7 = None
   \<and> get_security_error_message 7 = ''Unknown security error (error 7)''
   \<and> code_of_message (get_security_error_message 7) = 7"
  using get_security_error_message_carries_code [of "- 50"]
        get_security_error_message_carries_code [of 7]
  by (auto simp: SEC_ERROR_MESSAGES_def str_int_7 str_int_minus_50)

text \<open>
  C8 as the spec words it fails: a code outside the table does not render as
  \<open>unknown error (code N)\<close>.
\<close>

theorem unknown_code_rendering_counterexample:
  "map_of SEC_ERROR_MESSAGES 7 = None
   \<and> get_security_error_message 7 \<noteq> ''unknown error (code 7)''
   \<and> get_security_error_message 7 = ''Unknown security error (error 7)''"
  by (simp add: get_security_error_message_def SEC_ERROR_MESSAGES_def str_int_7)

section \<open>Frames of the keychain operations\<close>

lemma new_events_append: "trace w' = trace w @ es \<Longrightarrow> new_events w w' = es"
  by (simp add: new_events_def)

lemma triple: "x = (fst x, fst (snd x), snd (snd x))"
  by simp

lemma find_run:
  "subprocess_run w (Find_generic_password s a b) = (r, w') \<Longrightarrow>
     w' = emit (Call_subprocess_run (argv (Find_generic_password s a b))) w"
  by (auto simp: subprocess_run_def Let_def emit_def
      split: if_splits tool_condition.splits option.splits)

lemma get_password_fallback_world:
  "get_password_fallback self w a = (r, self', w') \<Longrightarrow>
     w' = emit (Call_subprocess_run (argv (Find_generic_password SERVICE_NAME a True))) w"
  by (auto simp: get_password_fallback_def split: prod.splits sum.splits if_splits dest: find_run)

lemma has_password_world:
  "has_password self w a = (r, w') \<Longrightarrow>
     w' = emit (Call_subprocess_run (argv (Find_generic_password SERVICE_NAME a False))) w"
  by (auto simp: has_password_def has_password_fallback_def
      split: prod.splits sum.splits if_splits dest: find_run)

lemma get_password_fallback_none:
  "keychain_items w (SERVICE_NAME, a) = None \<Longrightarrow> fst (get_password_fallback self w a) = None"
  by (auto simp: get_password_fallback_def subprocess_run_def Let_def
      split: prod.splits sum.splits if_splits tool_condition.splits)

section \<open>The biometric gate before retrieval\<close>

text \<open>
  C3. \<open>get_password\<close> calls the verification of the biometric gate
  (\<open>touchid.authenticate\<close>, which shows the prompt) exactly when the gate reports
  availability: once if \<open>is_available()\<close> is true, never otherwise. When the gate is
  available and the verification is denied, \<open>get_password\<close> returns \<open>None\<close> with
  \<open>last_error\<close> set to the Touch ID failure, the calls it made are the probe and the
  verification only, no \<open>security\<close> process is run, and the keychain is as before.
\<close>

theorem get_password_gate_precedence:
  assumes "get_password self w account prompt = (r, self', w')"
  shows "(if fst (touchid_is_available w)
          then filter is_verify (new_events w w') =
                 [Call_touchid_authenticate prompt, Call_evaluatePolicy prompt]
          else filter is_verify (new_events w w') = [])
       \<and> (fst (touchid_is_available w) \<and> \<not> fst (la_reply w) \<longrightarrow>
            r = Inr None
          \<and> last_error self' =
              Some (''Touch ID authentication failed: '' @ str_opt (snd (la_reply w)))
          \<and> new_events w w' = [Call_canEvaluatePolicy, Call_touchid_authenticate prompt,
                                 Call_canEvaluatePolicy, Call_evaluatePolicy prompt]
          \<and> filter is_subprocess (new_events w w') = []
          \<and> keychain_items w' = keychain_items w)"
proof (cases "la_framework w")
  case LA_absent
  with assms show ?thesis
    by (auto simp: get_password_def touchid_is_available_def Let_def emit_def new_events_append
        split: prod.splits dest!: get_password_fallback_world)
next
  case (LA_broken cls m)
  with assms show ?thesis
    by (auto simp: get_password_def touchid_is_available_def Let_def emit_def new_events_append
        split: prod.splits dest!: get_password_fallback_world)
next
  case (LA_present can err)
  show ?thesis
  proof (cases can)
    case False
    with LA_present assms show ?thesis
      by (auto simp: get_password_def touchid_is_available_def Let_def emit_def new_events_append
          split: prod.splits dest!: get_password_fallback_world)
  next
    case True
    with LA_present assms show ?thesis
      by (cases "la_reply w")
         (auto simp: get_password_def touchid_is_available_def touchid_authenticate_def
            last_error_def Let_def emit_def new_events_append
          split: prod.splits if_splits dest!: get_password_fallback_world)
  qed
qed

theorem get_password_gate_precedence_witness:
  "fst (touchid_is_available world_touchid_denied)
   \<and> \<not> fst (la_reply world_touchid_denied)
   \<and> keychain_items world_touchid_denied (SERVICE_NAME, alice) = Some ''p@ss1''
   \<and> fst (get_password manager0 world_touchid_denied alice ''Unlock'') = Inr None
   \<and> last_error (fst (snd (get_password manager0 world_touchid_denied alice ''Unlock'')))
       = Some ''Touch ID authentication failed: Authentication canceled.''
   \<and> filter is_subprocess
        (new_events world_touchid_denied
           (snd (snd (get_password manager0 world_touchid_denied alice ''Unlock'')))) = []
   \<and> \<not> fst (touchid_is_available world_stored)
   \<and> filter is_verify
        (new_events world_stored
           (snd (snd (get_password manager0 world_stored alice ''Unlock'')))) = []"
  using get_password_gate_precedence
          [where self = manager0 and w = world_touchid_denied and account = alice
             and prompt = "''Unlock''", OF triple]
        get_password_gate_precedence
          [where self = manager0 and w = world_stored and account = alice
             and prompt = "''Unlock''", OF triple]
  by (simp add: touchid_is_available_def world_touchid_denied_def world_stored_def world0_def)

section \<open>What a retrieval leaves behind\<close>

lemma get_password_frame:
  assumes "get_password self w a p = (r, self', w')"
  shows "w' = w\<lparr>trace := trace w @ new_events w w'\<rparr>
       \<and> filter is_remote (new_events w w') = [] \<and> (\<exists>v. r = Inr v)"
proof (cases "la_framework w")
  case LA_absent
  with assms show ?thesis
    by (auto simp: get_password_def touchid_is_available_def Let_def emit_def new_events_def
        split: prod.splits dest!: get_password_fallback_world)
next
  case (LA_broken cls m)
  with assms show ?thesis
    by (auto simp: get_password_def touchid_is_available_def Let_def emit_def new_events_def
        split: prod.splits dest!: get_password_fallback_world)
next
  case (LA_present can err)
  with assms show ?thesis
    by (cases "la_reply w")
       (auto simp: get_password_def touchid_is_available_def touchid_authenticate_def
          Let_def emit_def new_events_def
        split: prod.splits if_splits dest!: get_password_fallback_world)
qed

lemma get_password_fallback_noneD:
  "get_password_fallback self w a = (r, self', w') \<Longrightarrow>
     keychain_items w (SERVICE_NAME, a) = None \<Longrightarrow> r = None"
  using get_password_fallback_none [of w a self] by simp

lemma get_password_none:
  assumes "keychain_items w (SERVICE_NAME, a) = None"
  shows "fst (get_password self w a p) = Inr None"
proof -
  show ?thesis
    using assms
    by (cases "la_framework w")
       (auto simp: get_password_def touchid_is_available_def touchid_authenticate_def
          Let_def emit_def split: prod.splits if_splits dest!: get_password_fallback_noneD)
qed

lemma get_password_denied:
  assumes "fst (touchid_is_available w)" and "\<not> fst (la_reply w)"
  shows "fst (get_password self w a p) = Inr None"
  using assms
  by (cases "la_framework w"; cases "la_reply w")
     (auto simp: get_password_def touchid_is_available_def touchid_authenticate_def
        Let_def emit_def split: prod.splits if_splits)


section \<open>Authentication without a stored credential\<close>

lemma authenticate_resolve_none:
  assumes "fst (get_password (keychain self) w a ''Authenticate to access iCloud credentials'') = Inr None"
    and "authenticate self w a None callback = (r, self', w')"
  shows "r = Inl (Exn CredentialsNotFoundError no_credentials_message)
       \<and> filter is_remote (new_events w w') = []
       \<and> priv_api self' = priv_api self"
proof -
  obtain r0 k w1 where g:
    "get_password (keychain self) w a ''Authenticate to access iCloud credentials'' = (r0, k, w1)"
    by (cases "get_password (keychain self) w a ''Authenticate to access iCloud credentials''") auto
  with assms(1) have r0: "r0 = Inr None" by simp
  from get_password_frame [OF g] have "filter is_remote (new_events w w1) = []" by simp
  with assms(2) g r0 show ?thesis
    by (auto simp: authenticate_def)
qed

text \<open>
  C6. \<open>authenticate(a)\<close> without an explicit secret fails with
  \<open>CredentialsNotFoundError\<close> whenever nothing is stored for \<open>a\<close>, and also whenever
  the biometric gate is available and denies the verification (whatever is stored). In
  both cases none of the calls it makes goes to the remote capability: neither the
  login nor the code validation nor the trust operation.
\<close>

theorem authenticate_without_credentials:
  assumes "authenticate self w a None callback = (r, self', w')"
  shows "(keychain_items w (SERVICE_NAME, a) = None \<longrightarrow>
            r = Inl (Exn CredentialsNotFoundError no_credentials_message)
          \<and> filter is_remote (new_events w w') = [])
       \<and> (fst (touchid_is_available w) \<and> \<not> fst (la_reply w) \<longrightarrow>
            r = Inl (Exn CredentialsNotFoundError no_credentials_message)
          \<and> filter is_remote (new_events w w') = [])"
  using authenticate_resolve_none [OF _ assms] get_password_none get_password_denied
  by blast

theorem authenticate_without_credentials_witness:
  "keychain_items world0 (SERVICE_NAME, alice) = None
   \<and> fst (authenticate client0 world0 alice None None)
       = Inl (Exn CredentialsNotFoundError no_credentials_message)
   \<and> filter is_remote
        (new_events world0 (snd (snd (authenticate client0 world0 alice None None)))) = []
   \<and> fst (touchid_is_available world_touchid_denied)
   \<and> \<not> fst (la_reply world_touchid_denied)
   \<and> keychain_items world_touchid_denied (SERVICE_NAME, alice) = Some ''p@ss1''
   \<and> fst (authenticate client0 world_touchid_denied alice None None)
       = Inl (Exn CredentialsNotFoundError no_credentials_message)
   \<and> filter is_remote
        (new_events world_touchid_denied
           (snd (snd (authenticate client0 world_touchid_denied alice None None)))) = []"
  using authenticate_without_credentials
          [where self = client0 and w = world0 and a = alice and callback = None, OF triple]
        authenticate_without_credentials
          [where self = client0 and w = world_touchid_denied and a = alice and callback = None,
           OF triple]
  by (simp add: touchid_is_available_def world_touchid_denied_def world_stored_def world0_def)

section \<open>The paths of authenticate\<close>

lemma username_keychain_commute:
  "self\<lparr>priv_username := x, keychain := k\<rparr> = self\<lparr>keychain := k, priv_username := x\<rparr>"
  by (cases self) simp

lemma authenticate_via_keychain:
  assumes "get_password (keychain self) w u ''Authenticate to access iCloud credentials''
             = (Inr (Some pw), k, w1)"
  shows "authenticate self w u None cb = authenticate (self\<lparr>keychain := k\<rparr>) w1 u (Some pw) cb"
  using assms by (simp add: authenticate_def Let_def username_keychain_commute)

lemma authenticate_two_factor_no_callback:
  assumes "remote_login w a s (session_dir w a \<noteq> None) = Login_ok True"
  shows "authenticate self w a (Some s) None =
           (Inl (Exn TwoFactorRequiredError ''2FA required but no callback provided''),
            self\<lparr>priv_username := Some a,
                 priv_api := Some \<lparr>apple_id = a, requires_2fa = True, is_trusted_session = False\<rparr>\<rparr>,
            w\<lparr>trace := trace w @ [Call_mkdir_cookie_dir, Call_PyiCloudService a s]\<rparr>)"
  using assms by (simp add: authenticate_def PyiCloudService_init_def emit_def Let_def)

lemma authenticate_invalid_code:
  assumes "remote_login w a s (session_dir w a \<noteq> None) = Login_ok True"
    and "\<not> remote_code_valid w a (cb ())"
  shows "authenticate self w a (Some s) (Some cb) =
           (Inl (Exn AuthenticationError ''Invalid 2FA code''),
            self\<lparr>priv_username := Some a,
                 priv_api := Some \<lparr>apple_id = a, requires_2fa = True, is_trusted_session = False\<rparr>\<rparr>,
            w\<lparr>trace := trace w @ [Call_mkdir_cookie_dir, Call_PyiCloudService a s,
                                    Call_twofa_callback, Call_validate_2fa_code a (cb ())]\<rparr>)"
  using assms
  by (simp add: authenticate_def PyiCloudService_init_def validate_2fa_code_def emit_def Let_def)

lemma authenticate_explicit_writes:
  assumes "authenticate self w a (Some s) cb = (r, self', w')"
  shows "(filter is_write (new_events w w') = [] \<and> session_dir w' = session_dir w)
       \<or> (r = Inr True
          \<and> filter is_write (new_events w w') = [Write_session_artifact a]
          \<and> session_dir w' = (session_dir w)(a \<mapsto> File)
          \<and> (\<exists>client. priv_api self' = Some client \<and> apple_id client = a
                \<and> is_trusted_session client))"
  using assms
  by (auto simp: authenticate_def PyiCloudService_init_def validate_2fa_code_def trust_session_def
        write_artifact_def emit_def Let_def new_events_def
      split: login_result.splits if_splits option.splits prod.splits)


lemma get_password_no_write:
  assumes "get_password self w a p = (r, self', w')"
  shows "filter is_write (new_events w w') = []"
proof (cases "la_framework w")
  case LA_absent
  with assms show ?thesis
    by (auto simp: get_password_def touchid_is_available_def Let_def emit_def new_events_def
        split: prod.splits dest!: get_password_fallback_world)
next
  case (LA_broken cls m)
  with assms show ?thesis
    by (auto simp: get_password_def touchid_is_available_def Let_def emit_def new_events_def
        split: prod.splits dest!: get_password_fallback_world)
next
  case (LA_present can err)
  with assms show ?thesis
    by (cases "la_reply w")
       (auto simp: get_password_def touchid_is_available_def touchid_authenticate_def
          Let_def emit_def new_events_def
        split: prod.splits if_splits dest!: get_password_fallback_world)
qed

lemma authenticate_explicit_trace:
  assumes "authenticate self w a (Some s) cb = (r, self', w')"
  shows "trace w' = trace w @ new_events w w'"
  using assms
  by (auto simp: authenticate_def PyiCloudService_init_def validate_2fa_code_def trust_session_def
        write_artifact_def emit_def Let_def new_events_def
      split: login_result.splits if_splits option.splits prod.splits)

lemma new_events_trans:
  assumes "trace w1 = trace w @ new_events w w1" and "trace w2 = trace w1 @ new_events w1 w2"
  shows "new_events w w2 = new_events w w1 @ new_events w1 w2"
proof -
  have "trace w2 = trace w @ (new_events w w1 @ new_events w1 w2)"
    using assms by simp
  then show ?thesis
    by (metis new_events_append)
qed

lemma authenticate_writes:
  assumes "authenticate self w a password cb = (r, self', w')"
  shows "(filter is_write (new_events w w') = [] \<and> session_dir w' = session_dir w)
       \<or> (r = Inr True
          \<and> filter is_write (new_events w w') = [Write_session_artifact a]
          \<and> session_dir w' = (session_dir w)(a \<mapsto> File)
          \<and> (\<exists>client. priv_api self' = Some client \<and> apple_id client = a
                \<and> is_trusted_session client))"
proof (cases password)
  case (Some s)
  with assms show ?thesis using authenticate_explicit_writes by blast
next
  case None
  obtain r0 k w1 where g:
    "get_password (keychain self) w a ''Authenticate to access iCloud credentials'' = (r0, k, w1)"
    by (cases "get_password (keychain self) w a ''Authenticate to access iCloud credentials''") auto
  from get_password_frame [OF g] obtain v where
    w1: "w1 = w\<lparr>trace := trace w @ new_events w w1\<rparr>" and r0: "r0 = Inr v"
    by blast
  have nw: "filter is_write (new_events w w1) = []"
    by (rule get_password_no_write [OF g])
  have sd: "session_dir w1 = session_dir w" and tr: "trace w1 = trace w @ new_events w w1"
    by (subst w1, simp)+
  show ?thesis
  proof (cases v)
    case None
    with assms \<open>password = None\<close> g r0 nw sd show ?thesis
      by (auto simp: authenticate_def)
  next
    case (Some pw)
    with assms \<open>password = None\<close> g r0
    have e: "authenticate (self\<lparr>keychain := k\<rparr>) w1 a (Some pw) cb = (r, self', w')"
      using authenticate_via_keychain [of self w a pw k w1 cb] by simp
    have "new_events w w' = new_events w w1 @ new_events w1 w'"
      by (rule new_events_trans [OF tr authenticate_explicit_trace [OF e]])
    with authenticate_explicit_writes [OF e] nw sd show ?thesis
      by auto
  qed
qed


section \<open>Two-factor required, no callback\<close>

text \<open>
  C1, as amended. When the remote capability accepts the login and reports that a
  second factor is required, \<open>authenticate(a, s)\<close> with no callback raises
  \<open>TwoFactorRequiredError\<close>, writes no session artifact and leaves the session
  directory exactly as it was: no artifact exists for \<open>a\<close> afterwards unless one
  existed before the call. More generally, for every call of \<open>authenticate\<close>: if an
  artifact was written or the session directory changed, then the call returned
  \<open>True\<close>, exactly one artifact was written, the one of \<open>a\<close>, and the client it
  holds is a trusted session.
\<close>

theorem authenticate_two_factor_required:
  assumes "authenticate self w a password callback = (r, self', w')"
  shows "(\<forall>s. password = Some s \<and> callback = None
              \<and> remote_login w a s (session_dir w a \<noteq> None) = Login_ok True \<longrightarrow>
            r = Inl (Exn TwoFactorRequiredError ''2FA required but no callback provided'')
          \<and> filter is_write (new_events w w') = []
          \<and> session_dir w' = session_dir w)
       \<and> (filter is_write (new_events w w') \<noteq> [] \<or> session_dir w' \<noteq> session_dir w \<longrightarrow>
            r = Inr True
          \<and> filter is_write (new_events w w') = [Write_session_artifact a]
          \<and> (\<exists>client. priv_api self' = Some client \<and> apple_id client = a
                \<and> is_trusted_session client))"
proof -
  have first: "r = Inl (Exn TwoFactorRequiredError ''2FA required but no callback provided'')
          \<and> filter is_write (new_events w w') = [] \<and> session_dir w' = session_dir w"
    if "password = Some s" "callback = None"
       "remote_login w a s (session_dir w a \<noteq> None) = Login_ok True" for s
    using assms that authenticate_two_factor_no_callback [of w a s self]
    by (auto simp: new_events_def)
  from first authenticate_writes [OF assms] show ?thesis
    by blast
qed

lemma authenticate_valid_code_then_trust:
  assumes "remote_login w a s (session_dir w a \<noteq> None) = Login_ok True"
    and "remote_code_valid w a (cb ())" and "\<not> remote_trusted_after_code w a"
  shows "authenticate self w a (Some s) (Some cb) =
           (Inr True,
            self\<lparr>priv_username := Some a,
                 priv_api := Some \<lparr>apple_id = a, requires_2fa = True, is_trusted_session = True\<rparr>\<rparr>,
            w\<lparr>session_dir := (session_dir w)(a \<mapsto> File),
              trace := trace w @ [Call_mkdir_cookie_dir, Call_PyiCloudService a s,
                                  Call_twofa_callback, Call_validate_2fa_code a (cb ()),
                                  Call_trust_session a, Write_session_artifact a]\<rparr>)"
  using assms
  by (simp add: authenticate_def PyiCloudService_init_def validate_2fa_code_def trust_session_def
        write_artifact_def emit_def Let_def)

section \<open>The example worlds, evaluated\<close>

lemma world0_login: "remote_login world0 alice ''p@ss1'' (session_dir world0 alice \<noteq> None) = Login_ok True"
  by (simp add: world0_def demo_login_def)

lemma world_stale_login:
  "remote_login world_stale alice ''p@ss1'' (session_dir world_stale alice \<noteq> None) = Login_ok True"
  by (simp add: world_stale_def)

lemma world_stale_artifact: "session_dir world_stale alice = Some File"
  by (simp add: world_stale_def)

lemma world0_no_artifact: "session_dir world0 alice = None"
  by (simp add: world0_def)

lemma world0_code: "remote_code_valid world0 alice c \<longleftrightarrow> c = ''123456''"
  by (simp add: world0_def)

lemma world_stale_code: "remote_code_valid world_stale alice c \<longleftrightarrow> c = ''123456''"
  by (simp add: world_stale_def world_stored_def world0_def)

lemma world0_not_trusted: "\<not> remote_trusted_after_code world0 alice"
  by (simp add: world0_def)

theorem authenticate_two_factor_required_witness:
  "remote_login world0 alice ''p@ss1'' (session_dir world0 alice \<noteq> None) = Login_ok True
   \<and> fst (authenticate client0 world0 alice (Some ''p@ss1'') None)
       = Inl (Exn TwoFactorRequiredError ''2FA required but no callback provided'')
   \<and> session_dir (snd (snd (authenticate client0 world0 alice (Some ''p@ss1'') None))) alice = None
   \<and> filter is_write
        (new_events world0
           (snd (snd (authenticate client0 world0 alice (Some ''p@ss1'') (Some (\<lambda>u. ''123456''))))))
       = [Write_session_artifact alice]
   \<and> fst (authenticate client0 world0 alice (Some ''p@ss1'') (Some (\<lambda>u. ''123456''))) = Inr True"
proof -
  have valid: "remote_code_valid world0 alice ((\<lambda>u. ''123456'') ())"
    by (simp add: world0_code)
  have ok: "authenticate client0 world0 alice (Some ''p@ss1'') (Some (\<lambda>u. ''123456'')) =
      (Inr True,
       client0\<lparr>priv_username := Some alice,
           priv_api := Some \<lparr>apple_id = alice, requires_2fa = True, is_trusted_session = True\<rparr>\<rparr>,
       world0\<lparr>session_dir := (session_dir world0)(alice \<mapsto> File),
         trace := trace world0 @ [Call_mkdir_cookie_dir, Call_PyiCloudService alice ''p@ss1'',
                             Call_twofa_callback, Call_validate_2fa_code alice ''123456'',
                             Call_trust_session alice, Write_session_artifact alice]\<rparr>)"
    using authenticate_valid_code_then_trust
            [where cb = "\<lambda>u. ''123456''" and self = client0, OF world0_login valid world0_not_trusted]
    by simp
  have written: "filter is_write
        (new_events world0
           (snd (snd (authenticate client0 world0 alice (Some ''p@ss1'') (Some (\<lambda>u. ''123456''))))))
       = [Write_session_artifact alice]"
    by (simp add: ok new_events_def)
  from authenticate_two_factor_required
          [where self = client0 and w = world0 and a = alice and password = "Some ''p@ss1''"
             and callback = None, OF triple]
       world0_login world0_no_artifact written ok
  show ?thesis by simp
qed

text \<open>
  C1 as stated fails where an artifact is already there (a stale one, which the spec
  foresees): the call fails with \<open>TwoFactorRequiredError\<close>, and the artifact of the
  account exists afterwards, since \<open>authenticate\<close> deletes nothing.
\<close>

theorem stale_artifact_two_factor_counterexample:
  "remote_login world_stale alice ''p@ss1'' (session_dir world_stale alice \<noteq> None) = Login_ok True
   \<and> fst (authenticate client0 world_stale alice (Some ''p@ss1'') None)
       = Inl (Exn TwoFactorRequiredError ''2FA required but no callback provided'')
   \<and> session_dir (snd (snd (authenticate client0 world_stale alice (Some ''p@ss1'') None))) alice
       = Some File"
  using authenticate_two_factor_no_callback [OF world_stale_login, of client0]
        world_stale_login world_stale_artifact
  by simp

section \<open>Two-factor code rejected\<close>

text \<open>
  C2, as amended. When the login is accepted with a second factor required and the
  code the callback yields is rejected, \<open>authenticate(a, s, provider)\<close> raises
  \<open>AuthenticationError\<close> (Invalid 2FA code). The calls it made are, in order: the
  creation of the cookie directory, the login, one call of the callback and one
  validation of its code; so the code is not retried and the trust operation is not
  called. The client it holds is not a trusted session, no artifact is written, and the
  session directory is exactly as it was: no artifact exists for \<open>a\<close> afterwards unless
  one existed before.
\<close>

theorem authenticate_invalid_two_factor_code:
  assumes "remote_login w a s (session_dir w a \<noteq> None) = Login_ok True"
    and "\<not> remote_code_valid w a (provider ())"
    and "authenticate self w a (Some s) (Some provider) = (r, self', w')"
  shows "r = Inl (Exn AuthenticationError ''Invalid 2FA code'')
       \<and> new_events w w' = [Call_mkdir_cookie_dir, Call_PyiCloudService a s,
                              Call_twofa_callback, Call_validate_2fa_code a (provider ())]
       \<and> filter is_write (new_events w w') = []
       \<and> session_dir w' = session_dir w
       \<and> (\<exists>client. priv_api self' = Some client \<and> \<not> is_trusted_session client)"
  using assms(3) authenticate_invalid_code [where cb = provider and self = self, OF assms(1,2)]
  by (auto simp: new_events_def)

theorem authenticate_invalid_two_factor_code_witness:
  "remote_login world0 alice ''p@ss1'' (session_dir world0 alice \<noteq> None) = Login_ok True
   \<and> \<not> remote_code_valid world0 alice ''000000''
   \<and> fst (authenticate client0 world0 alice (Some ''p@ss1'') (Some (\<lambda>u. ''000000'')))
       = Inl (Exn AuthenticationError ''Invalid 2FA code'')
   \<and> new_events world0
        (snd (snd (authenticate client0 world0 alice (Some ''p@ss1'') (Some (\<lambda>u. ''000000'')))))
       = [Call_mkdir_cookie_dir, Call_PyiCloudService alice ''p@ss1'',
          Call_twofa_callback, Call_validate_2fa_code alice ''000000'']
   \<and> session_dir
        (snd (snd (authenticate client0 world0 alice (Some ''p@ss1'') (Some (\<lambda>u. ''000000'')))))
        alice = None"
proof -
  note login = world0_login
  have code: "\<not> remote_code_valid world0 alice ((\<lambda>u. ''000000'') ())"
    by (simp add: world0_code)
  from world0_no_artifact login code
    authenticate_invalid_two_factor_code
      [where provider = "\<lambda>u. ''000000''" and self = client0, OF login code triple]
  show ?thesis by simp
qed

text \<open>
  C2 as stated fails where an artifact is already there: the rejected code ends in
  \<open>AuthenticationError\<close>, and the artifact of the account is still there afterwards.
\<close>

theorem stale_artifact_invalid_code_counterexample:
  "remote_login world_stale alice ''p@ss1'' (session_dir world_stale alice \<noteq> None) = Login_ok True
   \<and> \<not> remote_code_valid world_stale alice ''000000''
   \<and> fst (authenticate client0 world_stale alice (Some ''p@ss1'') (Some (\<lambda>u. ''000000'')))
       = Inl (Exn AuthenticationError ''Invalid 2FA code'')
   \<and> session_dir
        (snd (snd (authenticate client0 world_stale alice (Some ''p@ss1'') (Some (\<lambda>u. ''000000'')))))
        alice = Some File"
proof -
  have code: "\<not> remote_code_valid world_stale alice ((\<lambda>u. ''000000'') ())"
    by (simp add: world_stale_code)
  from authenticate_invalid_code
         [where cb = "\<lambda>u. ''000000''" and self = client0, OF world_stale_login code]
       world_stale_login world_stale_artifact code
  show ?thesis by simp
qed

section \<open>The client after a rejected code\<close>

lemma authenticate_explicit_invalid_code_state:
  assumes "authenticate self w u (Some s) cb
             = (Inl (Exn AuthenticationError ''Invalid 2FA code''), self', w')"
  shows "priv_username self' = Some u
       \<and> priv_api self' = Some \<lparr>apple_id = u, requires_2fa = True, is_trusted_session = False\<rparr>
       \<and> keychain self' = keychain self"
  using assms
  by (auto simp: authenticate_def PyiCloudService_init_def validate_2fa_code_def trust_session_def
        Let_def
      split: login_result.splits if_splits option.splits prod.splits)

text \<open>
  C9. Whenever \<open>authenticate(username, password, provider)\<close> raises the
  invalid-two-factor-code error, whether the password was given or came from the
  keychain, the object has already been changed: \<open>_username\<close> is the attempted
  username and \<open>_api\<close> is the client this call constructed (built for \<open>username\<close>,
  requiring the second factor, not trusted). The property \<open>api\<close> then returns that
  client and does not raise the not-authenticated error.
\<close>

theorem authenticate_failure_keeps_client:
  assumes "authenticate self w username password provider
             = (Inl (Exn AuthenticationError ''Invalid 2FA code''), self', w')"
  shows "priv_username self' = Some username
       \<and> priv_api self' =
           Some \<lparr>apple_id = username, requires_2fa = True, is_trusted_session = False\<rparr>
       \<and> api self' = Inr \<lparr>apple_id = username, requires_2fa = True, is_trusted_session = False\<rparr>
       \<and> api self' \<noteq> Inl (Exn AuthenticationError not_authenticated_message)"
proof -
  have state: "priv_username self' = Some username
       \<and> priv_api self' =
           Some \<lparr>apple_id = username, requires_2fa = True, is_trusted_session = False\<rparr>"
  proof (cases password)
    case (Some s)
    with assms show ?thesis
      using authenticate_explicit_invalid_code_state by blast
  next
    case None
    obtain r0 k w1 where g:
      "get_password (keychain self) w username ''Authenticate to access iCloud credentials''
         = (r0, k, w1)"
      by (cases "get_password (keychain self) w username
                   ''Authenticate to access iCloud credentials''") auto
    from get_password_frame [OF g] obtain v where r0: "r0 = Inr v" by blast
    show ?thesis
    proof (cases v)
      case None
      with assms \<open>password = None\<close> g r0 show ?thesis
        by (auto simp: authenticate_def)
    next
      case (Some pw)
      with assms \<open>password = None\<close> g r0
      have "authenticate (self\<lparr>keychain := k\<rparr>) w1 username (Some pw) provider
              = (Inl (Exn AuthenticationError ''Invalid 2FA code''), self', w')"
        using authenticate_via_keychain [of self w username pw k w1 provider] by simp
      then show ?thesis
        using authenticate_explicit_invalid_code_state by blast
    qed
  qed
  then show ?thesis
    by (simp add: api_def)
qed

theorem authenticate_failure_keeps_client_witness:
  "authenticate client0 world0 alice (Some ''p@ss1'') (Some (\<lambda>u. ''000000''))
     = (Inl (Exn AuthenticationError ''Invalid 2FA code''),
        client0\<lparr>priv_username := Some alice,
            priv_api := Some \<lparr>apple_id = alice, requires_2fa = True, is_trusted_session = False\<rparr>\<rparr>,
        world0\<lparr>trace := trace world0 @ [Call_mkdir_cookie_dir, Call_PyiCloudService alice ''p@ss1'',
                                Call_twofa_callback, Call_validate_2fa_code alice ''000000'']\<rparr>)
   \<and> api client0 = Inl (Exn AuthenticationError not_authenticated_message)
   \<and> api (fst (snd (authenticate client0 world0 alice (Some ''p@ss1'') (Some (\<lambda>u. ''000000'')))))
       = Inr \<lparr>apple_id = alice, requires_2fa = True, is_trusted_session = False\<rparr>"
proof -
  have code: "\<not> remote_code_valid world0 alice ((\<lambda>u. ''000000'') ())"
    by (simp add: world0_code)
  have run: "authenticate client0 world0 alice (Some ''p@ss1'') (Some (\<lambda>u. ''000000''))
     = (Inl (Exn AuthenticationError ''Invalid 2FA code''),
        client0\<lparr>priv_username := Some alice,
            priv_api := Some \<lparr>apple_id = alice, requires_2fa = True, is_trusted_session = False\<rparr>\<rparr>,
        world0\<lparr>trace := trace world0 @ [Call_mkdir_cookie_dir, Call_PyiCloudService alice ''p@ss1'',
                                Call_twofa_callback, Call_validate_2fa_code alice ''000000'']\<rparr>)"
    using authenticate_invalid_code
            [where cb = "\<lambda>u. ''000000''" and self = client0, OF world0_login code]
    by simp
  have before: "api client0 = Inl (Exn AuthenticationError not_authenticated_message)"
    by (simp add: api_def client0_def ICloudClient_init_def)
  from authenticate_failure_keeps_client [OF run] run before show ?thesis
    by simp
qed

section \<open>The keychain operations on a working tool\<close>

lemma dropWhile_hd_id: "xs \<noteq> [] \<Longrightarrow> \<not> P (hd xs) \<Longrightarrow> dropWhile P xs = xs"
  by (cases xs) auto

lemma py_strip_newline: "py_strip (s @ [CHR 0x0A]) = py_strip s"
proof (cases "\<forall>c \<in> set s. py_isspace c")
  case True
  have nl: "py_isspace (CHR 0x0A)" by (simp add: py_isspace_def)
  from True have a: "dropWhile py_isspace s = []" by simp
  have "\<forall>c \<in> set (s @ [CHR 0x0A]). py_isspace c"
    using True nl by simp
  then have b: "dropWhile py_isspace (s @ [CHR 0x0A]) = []"
    by (simp only: dropWhile_eq_Nil_conv)
  show ?thesis by (simp only: py_strip_def a b)
next
  case False
  then obtain c where "c \<in> set s" "\<not> py_isspace c" by blast
  then have "dropWhile py_isspace (s @ [CHR 0x0A]) = dropWhile py_isspace s @ [CHR 0x0A]"
    by (rule dropWhile_append1)
  then show ?thesis by (simp add: py_strip_def py_isspace_def)
qed

lemma py_strip_id:
  assumes "s = [] \<or> (\<not> py_isspace (hd s) \<and> \<not> py_isspace (last s))"
  shows "py_strip s = s"
proof (cases "s = []")
  case True
  then show ?thesis by (simp add: py_strip_def)
next
  case False
  with assms have h: "\<not> py_isspace (hd s)" and l: "\<not> py_isspace (last s)" by auto
  from False h have "dropWhile py_isspace s = s" by (rule dropWhile_hd_id)
  moreover from False l have "dropWhile py_isspace (rev s) = rev s"
    by (intro dropWhile_hd_id) (simp_all add: hd_rev)
  ultimately show ?thesis by (simp add: py_strip_def)
qed

lemma has_password_eval:
  assumes "security_tool w = Tool_ok" and "CHR 0x00 \<notin> set a"
  shows "has_password k w a =
           (keychain_items w (SERVICE_NAME, a) \<noteq> None,
            emit (Call_subprocess_run (argv (Find_generic_password SERVICE_NAME a False))) w)"
  using assms
  by (auto simp: has_password_def has_password_fallback_def subprocess_run_def SERVICE_NAME_def
        emit_def Let_def split: option.splits)

lemma get_password_fallback_eval:
  assumes "security_tool w = Tool_ok" and "CHR 0x00 \<notin> set a"
    and "keychain_items w (SERVICE_NAME, a) = Some p"
  shows "get_password_fallback self w a =
           (Some (py_strip p), self,
            emit (Call_subprocess_run (argv (Find_generic_password SERVICE_NAME a True))) w)"
  using assms
  by (auto simp: get_password_fallback_def subprocess_run_def SERVICE_NAME_def
        emit_def Let_def py_strip_newline split: option.splits)

lemma get_password_no_gate:
  assumes "\<not> fst (touchid_is_available w)"
    and "security_tool w = Tool_ok" and "CHR 0x00 \<notin> set a"
    and "keychain_items w (SERVICE_NAME, a) = Some p"
  shows "fst (get_password self w a prompt) = Inr (Some (py_strip p))
       \<and> fst (snd (get_password self w a prompt)) = self\<lparr>priv_last_error := None\<rparr>"
proof -
  obtain av w1 where av: "touchid_is_available w = (av, w1)"
    by (cases "touchid_is_available w") auto
  with assms(1) have "\<not> av" by simp
  from av have "security_tool w1 = Tool_ok" "keychain_items w1 (SERVICE_NAME, a) = Some p"
    using assms by (auto simp: touchid_is_available_def emit_def split: la_platform.splits)
  from get_password_fallback_eval [OF this(1) assms(3) this(2)] av \<open>\<not> av\<close>
  show ?thesis
    by (simp add: get_password_def Let_def)
qed

lemma get_password_granted:
  assumes "fst (touchid_is_available w)" and "fst (la_reply w)"
    and "security_tool w = Tool_ok" and "CHR 0x00 \<notin> set a"
    and "keychain_items w (SERVICE_NAME, a) = Some p"
  shows "get_password self w a prompt =
          (Inr (Some (py_strip p)), self\<lparr>priv_last_error := None\<rparr>,
           w\<lparr>trace := trace w @ [Call_canEvaluatePolicy, Call_touchid_authenticate prompt,
                Call_canEvaluatePolicy, Call_evaluatePolicy prompt,
                Call_subprocess_run (argv (Find_generic_password SERVICE_NAME a True))]\<rparr>)"
proof -
  from assms(1) obtain err where la: "la_framework w = LA_present True err"
    by (auto simp: touchid_is_available_def split: la_platform.splits)
  obtain e where rep: "la_reply w = (True, e)"
    using assms(2) by (cases "la_reply w") auto
  let ?w2 = "w\<lparr>trace := trace w @ [Call_canEvaluatePolicy, Call_touchid_authenticate prompt,
                Call_canEvaluatePolicy, Call_evaluatePolicy prompt]\<rparr>"
  have "security_tool ?w2 = Tool_ok" "keychain_items ?w2 (SERVICE_NAME, a) = Some p"
    using assms by simp_all
  from get_password_fallback_eval [OF this(1) assms(4) this(2)] la rep
  show ?thesis
    by (simp add: get_password_def touchid_is_available_def touchid_authenticate_def
          Let_def emit_def)
qed

lemma store_password_eval:
  assumes "security_tool w = Tool_ok" and "CHR 0x00 \<notin> set a" and "CHR 0x00 \<notin> set s"
  shows "store_password self w a s rb =
          (True, self\<lparr>priv_last_error := None\<rparr>,
           w\<lparr>keychain_items := (keychain_items w)((SERVICE_NAME, a) \<mapsto> s),
             trace := trace w @
               [Call_subprocess_run (argv (Delete_generic_password SERVICE_NAME a)),
                Call_subprocess_run (argv (Add_generic_password SERVICE_NAME a s))]\<rparr>)"
  using assms
  by (auto simp: store_password_def store_password_fallback_def subprocess_run_def SERVICE_NAME_def
        emit_def Let_def split: option.splits)

section \<open>The validity probe\<close>

lemma is_session_valid_try_returns:
  assumes "is_session_valid_try self w a = (Inr (Some b), self', w')"
  shows "(\<exists>pw. pw \<noteq> [] \<and> remote_login w a pw (session_dir w a \<noteq> None) = Login_ok (\<not> b))
       \<and> priv_api self' = Some \<lparr>apple_id = a, requires_2fa = \<not> b, is_trusted_session = b\<rparr>
       \<and> priv_username self' = Some a"
proof -
  obtain r0 k w1 where g: "get_password (keychain self) w a ''Check iCloud session'' = (r0, k, w1)"
    by (cases "get_password (keychain self) w a ''Check iCloud session''") auto
  from get_password_frame [OF g] obtain v where
    w1: "w1 = w\<lparr>trace := trace w @ new_events w w1\<rparr>" and r0: "r0 = Inr v"
    by blast
  have sd: "session_dir w1 = session_dir w" and rl: "remote_login w1 = remote_login w"
    by (subst w1, simp)+
  from assms g r0 obtain pw where v: "v = Some pw" and pw: "pw \<noteq> []"
    by (cases v) (auto simp: is_session_valid_try_def Let_def split: if_splits)
  show ?thesis
  proof (cases "remote_login w a pw (session_dir w a \<noteq> None)")
    case (Login_rejected d)
    with assms g r0 v pw sd rl show ?thesis
      by (simp add: is_session_valid_try_def PyiCloudService_init_def Let_def)
  next
    case (Login_error c m)
    with assms g r0 v pw sd rl show ?thesis
      by (simp add: is_session_valid_try_def PyiCloudService_init_def Let_def)
  next
    case (Login_ok two_factor)
    with assms g r0 v pw sd rl have "b = (\<not> two_factor)"
      and "self' = self\<lparr>keychain := k,
             priv_api := Some \<lparr>apple_id = a, requires_2fa = two_factor,
                                is_trusted_session = \<not> two_factor\<rparr>,
             priv_username := Some a\<rparr>"
      by (auto simp: is_session_valid_try_def PyiCloudService_init_def Let_def)
    with Login_ok pw show ?thesis
      by auto
  qed
qed

lemma get_password_verify_events:
  assumes "get_password self w account prompt = (r, self', w')"
  shows "filter is_verify (new_events w w') =
           (if fst (touchid_is_available w)
            then [Call_touchid_authenticate prompt, Call_evaluatePolicy prompt] else [])"
proof (cases "la_framework w")
  case LA_absent
  with assms show ?thesis
    by (auto simp: get_password_def touchid_is_available_def Let_def emit_def new_events_append
        split: prod.splits dest!: get_password_fallback_world)
next
  case (LA_broken cls m)
  with assms show ?thesis
    by (auto simp: get_password_def touchid_is_available_def Let_def emit_def new_events_append
        split: prod.splits dest!: get_password_fallback_world)
next
  case (LA_present can err)
  with assms show ?thesis
    by (cases can; cases "la_reply w")
       (auto simp: get_password_def touchid_is_available_def touchid_authenticate_def
          Let_def emit_def new_events_append
        split: prod.splits if_splits dest!: get_password_fallback_world)
qed

lemma available_trace_irrelevant:
  "fst (touchid_is_available (emit e w)) = fst (touchid_is_available w)"
  by (simp add: touchid_is_available_def emit_def split: la_platform.splits)

lemma is_session_valid_try_verify_events:
  assumes "is_session_valid_try self w a = (r, self', w')"
  shows "trace w' = trace w @ new_events w w'
       \<and> filter is_verify (new_events w w') =
           (if fst (touchid_is_available w)
            then [Call_touchid_authenticate ''Check iCloud session'',
                  Call_evaluatePolicy ''Check iCloud session''] else [])"
proof -
  obtain r0 k w1 where g: "get_password (keychain self) w a ''Check iCloud session'' = (r0, k, w1)"
    by (cases "get_password (keychain self) w a ''Check iCloud session''") auto
  define es where "es = new_events w w1"
  from get_password_frame [OF g] obtain v where
    w1: "w1 = w\<lparr>trace := trace w @ es\<rparr>" and r0: "r0 = Inr v"
    unfolding es_def by blast
  have ev: "filter is_verify es =
           (if fst (touchid_is_available w)
            then [Call_touchid_authenticate ''Check iCloud session'',
                  Call_evaluatePolicy ''Check iCloud session''] else [])"
    unfolding es_def by (rule get_password_verify_events [OF g])
  from assms g r0 have
    "w' = w1 \<or> (\<exists>pw. w' = emit (Call_PyiCloudService a pw) w1)
      \<or> (\<exists>pw. w' = write_artifact a (emit (Call_PyiCloudService a pw) w1))"
    by (auto simp: is_session_valid_try_def PyiCloudService_init_def Let_def
        split: option.splits if_splits login_result.splits)
  then have "\<exists>extra. trace w' = trace w @ es @ extra \<and> filter is_verify extra = []"
    by (auto simp: w1 emit_def write_artifact_def)
  then obtain extra where tr: "trace w' = trace w @ es @ extra" and ex: "filter is_verify extra = []"
    by blast
  from tr have "new_events w w' = es @ extra" by (simp add: new_events_def)
  with tr ev ex show ?thesis by simp
qed

lemma get_password_result:
  assumes "\<not> fst (touchid_is_available w) \<or> fst (la_reply w)"
    and "security_tool w = Tool_ok" and "CHR 0x00 \<notin> set a"
    and "keychain_items w (SERVICE_NAME, a) = Some p"
  shows "fst (get_password self w a prompt) = Inr (Some (py_strip p))"
proof (cases "fst (touchid_is_available w)")
  case False
  from get_password_no_gate [OF False assms(2-4)] show ?thesis by simp
next
  case True
  with assms(1) have "fst (la_reply w)" by simp
  from get_password_granted [OF True this assms(2-4)] show ?thesis by simp
qed

lemma is_session_valid_try_eval:
  assumes "\<not> fst (touchid_is_available w) \<or> fst (la_reply w)"
    and "security_tool w = Tool_ok" and "CHR 0x00 \<notin> set a"
    and "keychain_items w (SERVICE_NAME, a) = Some p" and "py_strip p \<noteq> []"
  shows "fst (is_session_valid_try self w a) =
          (case remote_login w a (py_strip p) (session_dir w a \<noteq> None) of
             Login_ok two_factor \<Rightarrow> Inr (Some (\<not> two_factor))
           | Login_rejected d \<Rightarrow> Inl (Exn PyiCloudFailedLoginException d)
           | Login_error c m \<Rightarrow> Inl (Exn (OtherException c) m))"
proof -
  obtain r0 k w1 where g: "get_password (keychain self) w a ''Check iCloud session'' = (r0, k, w1)"
    by (cases "get_password (keychain self) w a ''Check iCloud session''") auto
  define es where "es = new_events w w1"
  from get_password_frame [OF g] have w1: "w1 = w\<lparr>trace := trace w @ es\<rparr>"
    unfolding es_def by blast
  from get_password_result [OF assms(1-4), of "keychain self" "''Check iCloud session''"] g
  have r0: "r0 = Inr (Some (py_strip p))" by simp
  show ?thesis
    using assms(5)
    by (simp add: is_session_valid_try_def g r0 w1 PyiCloudService_init_def Let_def
        split: login_result.splits)
qed

lemma is_session_valid_eval:
  assumes "\<not> fst (touchid_is_available w) \<or> fst (la_reply w)"
    and "security_tool w = Tool_ok" and "CHR 0x00 \<notin> set a"
    and "keychain_items w (SERVICE_NAME, a) = Some p" and "py_strip p \<noteq> []"
    and "session_dir w a \<noteq> None"
  shows "fst (is_session_valid_try self (snd (has_password (keychain self) w a)) a) =
          (case remote_login w a (py_strip p) True of
             Login_ok two_factor \<Rightarrow> Inr (Some (\<not> two_factor))
           | Login_rejected d \<Rightarrow> Inl (Exn PyiCloudFailedLoginException d)
           | Login_error c m \<Rightarrow> Inl (Exn (OtherException c) m))
       \<and> fst (is_session_valid self w a) =
          (case remote_login w a (py_strip p) True of
             Login_ok two_factor \<Rightarrow> Inr (\<not> two_factor)
           | Login_rejected d \<Rightarrow> Inr False
           | Login_error c m \<Rightarrow> Inr False)"
proof -
  let ?w1 = "emit (Call_subprocess_run (argv (Find_generic_password SERVICE_NAME a False))) w"
  have hp: "has_password (keychain self) w a = (True, ?w1)"
    using has_password_eval [OF assms(2,3), of "keychain self"] assms(4) by simp
  have pre: "\<not> fst (touchid_is_available ?w1) \<or> fst (la_reply ?w1)"
    "security_tool ?w1 = Tool_ok" "keychain_items ?w1 (SERVICE_NAME, a) = Some p"
    using assms by (simp_all add: available_trace_irrelevant) (simp_all add: emit_def)
  have t: "fst (is_session_valid_try self ?w1 a) =
          (case remote_login w a (py_strip p) True of
             Login_ok two_factor \<Rightarrow> Inr (Some (\<not> two_factor))
           | Login_rejected d \<Rightarrow> Inl (Exn PyiCloudFailedLoginException d)
           | Login_error c m \<Rightarrow> Inl (Exn (OtherException c) m))"
    using is_session_valid_try_eval [OF pre(1,2) assms(3) pre(3) assms(5), of self] assms(6)
    by (simp add: emit_def)
  obtain rt st wt where tt: "is_session_valid_try self ?w1 a = (rt, st, wt)"
    by (cases "is_session_valid_try self ?w1 a") auto
  have sd: "session_dir ?w1 a \<noteq> None" using assms(6) by (simp add: emit_def)
  from t tt sd show ?thesis
    by (auto simp: is_session_valid_def hp split: login_result.splits)
qed

lemma alice_no_nul: "CHR 0x00 \<notin> set alice"
  by (simp add: alice_def)

lemma strip_secret: "py_strip ''p@ss1'' = ''p@ss1''"
  by (simp add: py_strip_def py_isspace_def)

text \<open>
  C7. \<open>is_session_valid(a)\<close> always returns a boolean and never raises. It returns
  \<open>False\<close> whenever \<open>has_password(a)\<close> is false, whether or not an artifact exists
  for \<open>a\<close>, and whenever no artifact exists for \<open>a\<close>. When the body of its \<open>try\<close>
  block raises (the retrieval, or the reconstruction of the remote client), it returns
  \<open>False\<close>. It returns \<open>True\<close> only when both checks passed and the client
  reconstructed from a non-empty stored secret requires no second factor; that client
  is then held in \<open>_api\<close>.
\<close>

theorem is_session_valid_total:
  assumes "is_session_valid self w a = (r, self', w')"
  shows "(\<exists>b. r = Inr b)
       \<and> (\<not> fst (has_password (keychain self) w a) \<longrightarrow> r = Inr False)
       \<and> (session_dir w a = None \<longrightarrow> r = Inr False)
       \<and> (\<forall>e. fst (is_session_valid_try self (snd (has_password (keychain self) w a)) a) = Inl e
              \<longrightarrow> r = Inr False)
       \<and> (r = Inr True \<longrightarrow>
             fst (has_password (keychain self) w a) \<and> session_dir w a \<noteq> None
           \<and> (\<exists>pw. pw \<noteq> [] \<and> remote_login w a pw True = Login_ok False)
           \<and> priv_api self' = Some \<lparr>apple_id = a, requires_2fa = False, is_trusted_session = True\<rparr>)"
proof -
  obtain h w1 where hp: "has_password (keychain self) w a = (h, w1)"
    by (cases "has_password (keychain self) w a") auto
  from has_password_world [OF hp] have
    sd: "session_dir w1 = session_dir w" and rl: "remote_login w1 = remote_login w"
    by (simp_all add: emit_def)
  obtain rt st wt where t: "is_session_valid_try self w1 a = (rt, st, wt)"
    by (cases "is_session_valid_try self w1 a") auto
  show ?thesis
  proof (cases "h \<and> session_dir w a \<noteq> None")
    case False
    then have "is_session_valid self w a = (Inr False, self, w1)"
      by (auto simp: is_session_valid_def hp sd)
    with assms have "r = Inr False" by simp
    with False hp show ?thesis by auto
  next
    case True
    then have "is_session_valid self w a =
        (case rt of Inl e \<Rightarrow> (Inr False, st, wt)
         | Inr None \<Rightarrow> (Inr False, st, wt)
         | Inr (Some b) \<Rightarrow> (Inr b, st, wt))"
      by (auto simp: is_session_valid_def hp sd t split: sum.splits option.splits)
    with assms have run: "(r, self', w') =
        (case rt of Inl e \<Rightarrow> (Inr False, st, wt)
         | Inr None \<Rightarrow> (Inr False, st, wt)
         | Inr (Some b) \<Rightarrow> (Inr b, st, wt))"
      by simp
    show ?thesis
    proof (cases rt)
      case (Inl e)
      with run True hp t show ?thesis by auto
    next
      case (Inr ob)
      show ?thesis
      proof (cases ob)
        case None
        with Inr run True hp t show ?thesis by auto
      next
        case (Some b)
        with Inr t have "is_session_valid_try self w1 a = (Inr (Some b), st, wt)" by simp
        from is_session_valid_try_returns [OF this] Some Inr run True hp t sd rl show ?thesis
          by auto
      qed
    qed
  qed
qed

theorem is_session_valid_total_witness:
  "session_dir world_orphan_artifact alice = Some File
   \<and> \<not> fst (has_password (keychain client0) world_orphan_artifact alice)
   \<and> fst (is_session_valid client0 world_orphan_artifact alice) = Inr False
   \<and> session_dir world_stored alice = None
   \<and> fst (is_session_valid client0 world_stored alice) = Inr False
   \<and> fst (is_session_valid_try client0
             (snd (has_password (keychain client0) world_offline alice)) alice)
       = Inl (Exn (OtherException ''ConnectionError'') ''Network is unreachable'')
   \<and> fst (is_session_valid client0 world_offline alice) = Inr False
   \<and> fst (is_session_valid client0 world_session alice) = Inr True
   \<and> priv_api (fst (snd (is_session_valid client0 world_session alice)))
       = Some \<lparr>apple_id = alice, requires_2fa = False, is_trusted_session = True\<rparr>"
proof -
  have orphan: "\<not> fst (has_password (keychain client0) world_orphan_artifact alice)"
    using has_password_eval [of world_orphan_artifact alice "keychain client0"] alice_no_nul
    by (simp add: world_orphan_artifact_def world0_def)
  have offline: "fst (is_session_valid_try client0
             (snd (has_password (keychain client0) world_offline alice)) alice)
       = Inl (Exn (OtherException ''ConnectionError'') ''Network is unreachable'')"
    using is_session_valid_eval [of world_offline alice "''p@ss1''" client0] alice_no_nul
    by (simp add: strip_secret touchid_is_available_def world_offline_def world_session_def
          world_stored_def world0_def)
  have valid: "fst (is_session_valid client0 world_session alice) = Inr True"
    using is_session_valid_eval [of world_session alice "''p@ss1''" client0] alice_no_nul
    by (simp add: strip_secret touchid_is_available_def world_session_def
          world_stored_def world0_def demo_login_def)
  from is_session_valid_total
         [where self = client0 and w = world_orphan_artifact and a = alice, OF triple]
       is_session_valid_total
         [where self = client0 and w = world_stored and a = alice, OF triple]
       is_session_valid_total
         [where self = client0 and w = world_offline and a = alice, OF triple]
       is_session_valid_total
         [where self = client0 and w = world_session and a = alice, OF triple]
       orphan offline valid
  show ?thesis
    by (simp add: world_orphan_artifact_def world_stored_def world0_def)
qed

section \<open>The validity probe has effects\<close>

text \<open>
  C10. When \<open>has_password(a)\<close> is true, an artifact exists for \<open>a\<close> and the
  biometric gate is available, \<open>is_session_valid(a)\<close> calls the verification of the
  gate once, with the prompt \<open>Check iCloud session\<close>, whereas \<open>has_password(a)\<close> on
  its own never does. When the probe returns \<open>True\<close>, \<open>_username\<close> is \<open>a\<close> and
  \<open>_api\<close> is the reconstructed client, whatever they held before.
\<close>

theorem is_session_valid_prompts_and_overwrites:
  assumes "is_session_valid self w a = (r, self', w')"
  shows "(fst (has_password (keychain self) w a) \<and> session_dir w a \<noteq> None
            \<and> fst (touchid_is_available w) \<longrightarrow>
            filter is_verify (new_events w w') =
              [Call_touchid_authenticate ''Check iCloud session'',
               Call_evaluatePolicy ''Check iCloud session''])
       \<and> filter is_verify (new_events w (snd (has_password (keychain self) w a))) = []
       \<and> (r = Inr True \<longrightarrow>
             priv_username self' = Some a
           \<and> priv_api self' =
               Some \<lparr>apple_id = a, requires_2fa = False, is_trusted_session = True\<rparr>)"
proof -
  obtain h w1 where hp: "has_password (keychain self) w a = (h, w1)"
    by (cases "has_password (keychain self) w a") auto
  note w1 = has_password_world [OF hp]
  have sd: "session_dir w1 = session_dir w"
    and tr1: "trace w1 = trace w @ [Call_subprocess_run (argv (Find_generic_password SERVICE_NAME a False))]"
    by (simp_all add: w1 emit_def)
  have second: "filter is_verify (new_events w w1) = []"
    by (simp add: new_events_append [OF tr1])
  obtain rt st wt where t: "is_session_valid_try self w1 a = (rt, st, wt)"
    by (cases "is_session_valid_try self w1 a") auto
  have first: "filter is_verify (new_events w w') =
              [Call_touchid_authenticate ''Check iCloud session'',
               Call_evaluatePolicy ''Check iCloud session'']"
    if "h" "session_dir w a \<noteq> None" "fst (touchid_is_available w)"
  proof -
    from that have "is_session_valid self w a =
        (case rt of Inl e \<Rightarrow> (Inr False, st, wt)
         | Inr None \<Rightarrow> (Inr False, st, wt)
         | Inr (Some b) \<Rightarrow> (Inr b, st, wt))"
      by (auto simp: is_session_valid_def hp sd t split: sum.splits option.splits)
    with assms have "w' = wt"
      by (auto split: sum.splits option.splits)
    from is_session_valid_try_verify_events [OF t] that(3)
    have "trace wt = trace w1 @ new_events w1 wt"
      and "filter is_verify (new_events w1 wt) =
              [Call_touchid_authenticate ''Check iCloud session'',
               Call_evaluatePolicy ''Check iCloud session'']"
      by (simp_all add: w1 available_trace_irrelevant)
    moreover have "new_events w wt = new_events w w1 @ new_events w1 wt"
      using tr1 calculation(1) by (intro new_events_trans) (simp_all add: new_events_append [OF tr1])
    ultimately show ?thesis
      using second \<open>w' = wt\<close> by simp
  qed
  have third: "priv_username self' = Some a
           \<and> priv_api self' =
               Some \<lparr>apple_id = a, requires_2fa = False, is_trusted_session = True\<rparr>"
    if "r = Inr True"
  proof -
    from that assms hp sd t have "rt = Inr (Some True) \<and> self' = st"
      by (auto simp: is_session_valid_def split: if_splits sum.splits option.splits)
    with t have "is_session_valid_try self w1 a = (Inr (Some True), self', wt)" by simp
    from is_session_valid_try_returns [OF this] show ?thesis by simp
  qed
  from first second third hp show ?thesis by simp
qed

theorem is_session_valid_prompts_and_overwrites_witness:
  "fst (has_password (keychain client0) world_session_touchid alice)
   \<and> session_dir world_session_touchid alice \<noteq> None
   \<and> fst (touchid_is_available world_session_touchid)
   \<and> filter is_verify
        (new_events world_session_touchid
           (snd (snd (is_session_valid client0 world_session_touchid alice))))
       = [Call_touchid_authenticate ''Check iCloud session'',
          Call_evaluatePolicy ''Check iCloud session'']
   \<and> filter is_verify
        (new_events world_session_touchid
           (snd (has_password (keychain client0) world_session_touchid alice))) = []
   \<and> fst (is_session_valid client0 world_session_touchid alice) = Inr True
   \<and> priv_api client0 = None
   \<and> priv_username (fst (snd (is_session_valid client0 world_session_touchid alice))) = Some alice
   \<and> priv_api (fst (snd (is_session_valid client0 world_session_touchid alice)))
       = Some \<lparr>apple_id = alice, requires_2fa = False, is_trusted_session = True\<rparr>"
proof -
  have has: "fst (has_password (keychain client0) world_session_touchid alice)"
    using has_password_eval [of world_session_touchid alice "keychain client0"] alice_no_nul
    by (simp add: world_session_touchid_def world_session_def world_stored_def world0_def)
  have art: "session_dir world_session_touchid alice \<noteq> None"
    by (simp add: world_session_touchid_def world_session_def)
  have gate: "fst (touchid_is_available world_session_touchid)"
    by (simp add: touchid_is_available_def world_session_touchid_def)
  have valid: "fst (is_session_valid client0 world_session_touchid alice) = Inr True"
    using is_session_valid_eval [of world_session_touchid alice "''p@ss1''" client0] alice_no_nul
    by (simp add: strip_secret world_session_touchid_def world_session_def
          world_stored_def world0_def demo_login_def)
  have before: "priv_api client0 = None"
    by (simp add: client0_def ICloudClient_init_def)
  from is_session_valid_prompts_and_overwrites
         [where self = client0 and w = world_session_touchid and a = alice, OF triple]
       has art gate valid before
  show ?thesis by simp
qed

section \<open>Storing and retrieving\<close>

text \<open>
  What the code does for every account and secret: after a successful
  \<open>store_password\<close>, \<open>get_password\<close> (gate granted or unavailable) returns the secret
  with its leading and trailing whitespace removed, because \<open>_get_password_fallback\<close>
  returns \<open>result.stdout.strip()\<close>. It is the secret itself when the secret neither
  starts nor ends with whitespace. A second \<open>store_password\<close> replaces the first
  secret, and neither call sets \<open>last_error\<close>; the delete step may fail (nothing to
  delete) without failing the store, as \<open>store_password_eval\<close> shows for any keychain.
\<close>

lemma store_password_success:
  assumes "fst (store_password self w a s rb)"
  shows "security_tool w = Tool_ok \<and> CHR 0x00 \<notin> set a \<and> CHR 0x00 \<notin> set s"
proof (cases "security_tool w")
  case Tool_ok
  with assms show ?thesis
    by (auto simp: store_password_def store_password_fallback_def subprocess_run_def emit_def
          Let_def SERVICE_NAME_def split: if_splits prod.splits)
next
  case Tool_missing
  with assms show ?thesis
    by (auto simp: store_password_def store_password_fallback_def subprocess_run_def emit_def
          Let_def split: if_splits)
next
  case (Tool_raises m)
  with assms show ?thesis
    by (auto simp: store_password_def store_password_fallback_def subprocess_run_def emit_def
          Let_def split: if_splits)
next
  case (Tool_fails n err)
  with assms show ?thesis
    by (auto simp: store_password_def store_password_fallback_def subprocess_run_def emit_def
          Let_def split: if_splits)
qed

lemma round_trip_stripped:
  assumes "store_password self w a s rb = (True, self1, w1)"
    and "\<not> fst (touchid_is_available w) \<or> fst (la_reply w)"
  shows "fst (get_password self1 w1 a prompt) = Inr (Some (py_strip s))"
proof -
  from assms(1) have "fst (store_password self w a s rb)" by simp
  from store_password_success [OF this]
  have ok: "security_tool w = Tool_ok" "CHR 0x00 \<notin> set a" "CHR 0x00 \<notin> set s" by simp_all
  from store_password_eval [OF ok, of self rb] assms(1)
  have w1: "w1 = w\<lparr>keychain_items := (keychain_items w)((SERVICE_NAME, a) \<mapsto> s),
             trace := trace w @
               [Call_subprocess_run (argv (Delete_generic_password SERVICE_NAME a)),
                Call_subprocess_run (argv (Add_generic_password SERVICE_NAME a s))]\<rparr>"
    by simp
  have pre: "\<not> fst (touchid_is_available w1) \<or> fst (la_reply w1)"
    "security_tool w1 = Tool_ok" "keychain_items w1 (SERVICE_NAME, a) = Some s"
    using assms(2) ok(1)
    by (simp_all add: w1 touchid_is_available_def split: la_platform.splits)
  from get_password_result [OF pre(1,2) ok(2) pre(3)] show ?thesis .
qed

lemma round_trip_exact:
  assumes "store_password self w a s rb = (True, self1, w1)"
    and "\<not> fst (touchid_is_available w) \<or> fst (la_reply w)"
    and "s = [] \<or> (\<not> py_isspace (hd s) \<and> \<not> py_isspace (last s))"
  shows "fst (get_password self1 w1 a prompt) = Inr (Some s)"
  using round_trip_stripped [OF assms(1,2)] py_strip_id [OF assms(3)] by simp

lemma overwrite_stripped:
  assumes "store_password self w a s1 rb1 = (True, self1, w1)"
    and "store_password self1 w1 a s2 rb2 = (True, self2, w2)"
    and "\<not> fst (touchid_is_available w) \<or> fst (la_reply w)"
  shows "fst (get_password self2 w2 a prompt) = Inr (Some (py_strip s2))
       \<and> last_error self1 = None \<and> last_error self2 = None"
proof -
  from assms(1) have "fst (store_password self w a s1 rb1)" by simp
  from store_password_success [OF this]
  have ok: "security_tool w = Tool_ok" "CHR 0x00 \<notin> set a" "CHR 0x00 \<notin> set s1" by simp_all
  from store_password_eval [OF ok, of self rb1] assms(1)
  have w1: "w1 = w\<lparr>keychain_items := (keychain_items w)((SERVICE_NAME, a) \<mapsto> s1),
             trace := trace w @
               [Call_subprocess_run (argv (Delete_generic_password SERVICE_NAME a)),
                Call_subprocess_run (argv (Add_generic_password SERVICE_NAME a s1))]\<rparr>"
    and e1: "last_error self1 = None"
    by (auto simp: last_error_def)
  have gate1: "\<not> fst (touchid_is_available w1) \<or> fst (la_reply w1)"
    using assms(3) by (simp add: w1 touchid_is_available_def split: la_platform.splits)
  from assms(2) have "fst (store_password self1 w1 a s2 rb2)" by simp
  from store_password_success [OF this]
  have ok2: "security_tool w1 = Tool_ok" "CHR 0x00 \<notin> set a" "CHR 0x00 \<notin> set s2" by simp_all
  from store_password_eval [OF ok2, of self1 rb2] assms(2)
  have e2: "last_error self2 = None"
    by (auto simp: last_error_def)
  from round_trip_stripped [OF assms(2) gate1] e1 e2 show ?thesis by simp
qed

lemma secret_no_nul: "CHR 0x00 \<notin> set ''p@ss1'' \<and> CHR 0x00 \<notin> set ''p@ss1 ''"
  by simp

lemma strip_padded_secret: "py_strip ''p@ss1 '' = ''p@ss1''"
  by (simp add: py_strip_def py_isspace_def)

lemma world0_tool: "security_tool world0 = Tool_ok \<and> \<not> fst (touchid_is_available world0)"
  by (simp add: world0_def touchid_is_available_def)

text \<open>
  C4, at a secret that ends with a space. \<open>store_password\<close> succeeds for
  \<open>alice@example.com\<close> and the secret \<open>p@ss1\<close> followed by a space; \<open>get_password\<close>
  then returns \<open>p@ss1\<close> without the space, which is not the secret stored.
\<close>

theorem round_trip_padded_secret:
  "fst (store_password manager0 world0 alice ''p@ss1 '' True)
   \<and> fst (get_password
           (fst (snd (store_password manager0 world0 alice ''p@ss1 '' True)))
           (snd (snd (store_password manager0 world0 alice ''p@ss1 '' True)))
           alice ''Unlock'')
       = Inr (Some ''p@ss1'')
   \<and> ''p@ss1'' \<noteq> ''p@ss1 ''"
proof -
  have st: "fst (store_password manager0 world0 alice ''p@ss1 '' True)"
    using store_password_eval [of world0 alice "''p@ss1 ''" manager0 True]
          world0_tool alice_no_nul secret_no_nul
    by simp
  then have "store_password manager0 world0 alice ''p@ss1 '' True =
      (True, fst (snd (store_password manager0 world0 alice ''p@ss1 '' True)),
       snd (snd (store_password manager0 world0 alice ''p@ss1 '' True)))"
    by (metis prod.collapse)
  from round_trip_stripped [where prompt = "''Unlock''", OF this] world0_tool st show ?thesis
    by (simp add: strip_padded_secret)
qed

text \<open>
  C5, at a second secret that ends with a space. Both calls of \<open>store_password\<close>
  succeed and neither sets an error; after storing \<open>p@ss1\<close> and then \<open>p@ss1\<close>
  followed by a space, \<open>get_password\<close> returns \<open>p@ss1\<close>: the first secret, not the
  second.
\<close>

theorem overwrite_padded_secret:
  "fst (store_password manager0 world0 alice ''p@ss1'' True)
   \<and> last_error (fst (snd (store_password manager0 world0 alice ''p@ss1'' True))) = None
   \<and> fst (store_password
           (fst (snd (store_password manager0 world0 alice ''p@ss1'' True)))
           (snd (snd (store_password manager0 world0 alice ''p@ss1'' True)))
           alice ''p@ss1 '' True)
   \<and> last_error
        (fst (snd (store_password
           (fst (snd (store_password manager0 world0 alice ''p@ss1'' True)))
           (snd (snd (store_password manager0 world0 alice ''p@ss1'' True)))
           alice ''p@ss1 '' True))) = None
   \<and> fst (get_password
           (fst (snd (store_password
              (fst (snd (store_password manager0 world0 alice ''p@ss1'' True)))
              (snd (snd (store_password manager0 world0 alice ''p@ss1'' True)))
              alice ''p@ss1 '' True)))
           (snd (snd (store_password
              (fst (snd (store_password manager0 world0 alice ''p@ss1'' True)))
              (snd (snd (store_password manager0 world0 alice ''p@ss1'' True)))
              alice ''p@ss1 '' True)))
           alice ''Unlock'')
       = Inr (Some ''p@ss1'')"
proof -
  define m1 where "m1 = fst (snd (store_password manager0 world0 alice ''p@ss1'' True))"
  define w1 where "w1 = snd (snd (store_password manager0 world0 alice ''p@ss1'' True))"
  have s1: "store_password manager0 world0 alice ''p@ss1'' True = (True, m1, w1)"
    using store_password_eval [of world0 alice "''p@ss1''" manager0 True]
          world0_tool alice_no_nul secret_no_nul
    by (simp add: m1_def w1_def)
  have tool1: "security_tool w1 = Tool_ok"
    using store_password_eval [of world0 alice "''p@ss1''" manager0 True]
          world0_tool alice_no_nul secret_no_nul
    by (simp add: w1_def)
  define m2 where "m2 = fst (snd (store_password m1 w1 alice ''p@ss1 '' True))"
  define w2 where "w2 = snd (snd (store_password m1 w1 alice ''p@ss1 '' True))"
  have s2: "store_password m1 w1 alice ''p@ss1 '' True = (True, m2, w2)"
    using store_password_eval [of w1 alice "''p@ss1 ''" m1 True]
          tool1 alice_no_nul secret_no_nul
    by (simp add: m2_def w2_def)
  from overwrite_stripped [where prompt = "''Unlock''", OF s1 s2] world0_tool s1 s2
  show ?thesis
    unfolding m1_def [symmetric] w1_def [symmetric] m2_def [symmetric] w2_def [symmetric]
    by (simp add: strip_padded_secret)
qed

end
